theory Spec2Isabelle
  imports Main "HOL-Library.AList"
begin

section \<open>Python values, errors and containers\<close>

text \<open>
  The exceptions that the modelled code raises, catches or lets through.
  \<open>MsticnbMissingParameterError\<close> carries the parameter name it is constructed with,
  \<open>KeyError\<close> the missing key. \<open>OtherError\<close> stands for any other exception that a
  collaborator raises.
\<close>

datatype error =
    MsticnbMissingParameterError string
  | CloudError
  | KeyError string
  | TypeError
  | AttributeError string
  | OtherError string

text \<open>
  The JSON-like values that the Azure API returns and that an entity stores:
  \<open>None\<close>, strings, lists and dictionaries. A dictionary keeps its insertion order,
  so it is an association list.
\<close>

datatype pyval =
    PNone
  | PStr string
  | PList "pyval list"
  | PDict "(string \<times> pyval) list"

text \<open>Sequencing of computations that may raise: the first error wins.\<close>

definition bindE :: "error + 'a \<Rightarrow> ('a \<Rightarrow> error + 'b) \<Rightarrow> error + 'b" where
  "bindE m f = (case m of Inl e \<Rightarrow> Inl e | Inr x \<Rightarrow> f x)"

text \<open>\<open>d[k]\<close>: only a dictionary can be indexed by a string; a missing key raises.\<close>

definition getitem :: "pyval \<Rightarrow> string \<Rightarrow> error + pyval" where
  "getitem d k =
     (case d of
        PDict kvs \<Rightarrow> (case map_of kvs k of None \<Rightarrow> Inl (KeyError k) | Some v \<Rightarrow> Inr v)
      | _ \<Rightarrow> Inl TypeError)"

text \<open>\<open>d[k1][k2]...\<close>, evaluated left to right.\<close>

fun getpath :: "pyval \<Rightarrow> string list \<Rightarrow> error + pyval" where
  "getpath d [] = Inr d"
| "getpath d (k # ks) = bindE (getitem d k) (\<lambda>v. getpath v ks)"

text \<open>\<open>d.get(k, default)\<close>: a method of dictionaries only.\<close>

definition dict_get :: "pyval \<Rightarrow> string \<Rightarrow> pyval \<Rightarrow> error + pyval" where
  "dict_get d k dflt =
     (case d of
        PDict kvs \<Rightarrow> (case map_of kvs k of None \<Rightarrow> Inr dflt | Some v \<Rightarrow> Inr v)
      | _ \<Rightarrow> Inl (AttributeError ''get''))"

text \<open>
  \<open>d[k] = v\<close>: an existing key keeps its place, a new key goes to the end; anything but
  a dictionary refuses item assignment.
\<close>

definition setitem :: "pyval \<Rightarrow> string \<Rightarrow> pyval \<Rightarrow> error + pyval" where
  "setitem d k v =
     (case d of
        PDict kvs \<Rightarrow> Inr (PDict (AList.update k v kvs))
      | _ \<Rightarrow> Inl TypeError)"

text \<open>
  The elements a \<open>for\<close> loop or a comprehension visits: the items of a list, the keys
  of a dictionary, the characters of a string; \<open>None\<close> is not iterable.
\<close>

definition py_iter :: "pyval \<Rightarrow> error + pyval list" where
  "py_iter v =
     (case v of
        PList xs \<Rightarrow> Inr xs
      | PDict kvs \<Rightarrow> Inr (map (\<lambda>p. PStr (fst p)) kvs)
      | PStr s \<Rightarrow> Inr (map (\<lambda>c. PStr [c]) s)
      | PNone \<Rightarrow> Inl TypeError)"

text \<open>\<open>[f(x) for x in xs]\<close>: stops at the first element on which \<open>f\<close> raises.\<close>

fun mapE :: "('a \<Rightarrow> error + 'b) \<Rightarrow> 'a list \<Rightarrow> error + 'b list" where
  "mapE f [] = Inr []"
| "mapE f (x # xs) = bindE (f x) (\<lambda>y. bindE (mapE f xs) (\<lambda>ys. Inr (y # ys)))"

text \<open>The decimal digits of a natural number, as \<open>str\<close> and an f-string print it.\<close>

fun str_nat :: "nat \<Rightarrow> string" where
  "str_nat n =
     (if n < 10 then [char_of (48 + n)]
      else str_nat (n div 10) @ [char_of (48 + n mod 10)])"

declare str_nat.simps [simp del]

text \<open>
  A \<open>functools.lru_cache()\<close> of the default size 128: the entries, most recently used
  first. A hit moves the entry to the front; a miss stores the new entry at the front
  and drops the least recently used one when the cache is full. Keys are compared by
  value.
\<close>

type_synonym ('k, 'v) lru = "('k \<times> 'v) list"

definition lru_hit :: "'k \<Rightarrow> ('k, 'v) lru \<Rightarrow> ('k, 'v) lru" where
  "lru_hit k c =
     (case map_of c k of
        None \<Rightarrow> c
      | Some v \<Rightarrow> (k, v) # filter (\<lambda>p. fst p \<noteq> k) c)"

definition lru_store :: "'k \<Rightarrow> 'v \<Rightarrow> ('k, 'v) lru \<Rightarrow> ('k, 'v) lru" where
  "lru_store k v c = take 128 ((k, v) # c)"

section \<open>Data of the host summary notebooklet\<close>

text \<open>A \<open>TimeSpan\<close> with its start and end; an instance is always truthy.\<close>

datatype TimeSpan = TimeSpan int int

text \<open>
  A pandas \<open>DataFrame\<close>: its column names and its rows, each row giving the cells by
  column name. \<open>len\<close> counts the rows; \<open>.empty\<close> holds when either axis has length 0.
\<close>

record dataframe =
  df_columns :: "string list"
  df_rows :: "(string \<times> pyval) list list"

definition df_len :: "dataframe \<Rightarrow> nat" where
  "df_len df = length (df_rows df)"

definition df_empty :: "dataframe \<Rightarrow> bool" where
  "df_empty df = (df_columns df = [] \<or> df_rows df = [])"

text \<open>
  \<open>df[[c, d]].groupby(c).d.agg("count")\<close> has one entry for each distinct value of
  column \<open>c\<close>; rows whose key is missing are dropped. Only its length is used. The
  alert table has the columns of the alert schema, so selecting them does not raise.
\<close>

definition df_groups :: "dataframe \<Rightarrow> string \<Rightarrow> pyval list" where
  "df_groups df c =
     remdups (filter (\<lambda>v. v \<noteq> PNone)
       (map (\<lambda>r. case map_of r c of None \<Rightarrow> PNone | Some v \<Rightarrow> v) (df_rows df)))"

text \<open>
  A host entity is its property dictionary (\<open>HostName\<close>, \<open>Environment\<close>,
  \<open>AzureDetails\<close>, ...). \<open>entities.Host(HostName=h)\<close> has that one property.
  An entity with no property is falsy.
\<close>

type_synonym Host = "(string \<times> pyval) list"

definition new_Host :: "string \<Rightarrow> Host" where
  "new_Host h = [(''HostName'', PStr h)]"

text \<open>\<open>host.AzureDetails\<close>: reading an attribute that the entity does not have raises.\<close>

definition get_AzureDetails :: "Host \<Rightarrow> error + pyval" where
  "get_AzureDetails h =
     (case map_of h ''AzureDetails'' of
        None \<Rightarrow> Inl (AttributeError ''AzureDetails'')
      | Some d \<Rightarrow> Inr d)"

text \<open>
  \<open>host.AzureDetails[k] = v\<close>: the dictionary held by the entity is updated in place.
\<close>

definition set_AzureDetails_item :: "Host \<Rightarrow> string \<Rightarrow> pyval \<Rightarrow> error + Host" where
  "set_AzureDetails_item h k v =
     bindE (get_AzureDetails h) (\<lambda>d.
     bindE (setitem d k v) (\<lambda>d'.
     Inr (AList.update ''AzureDetails'' d' h)))"

text \<open>The handle of a plot that the display layer returns.\<close>

datatype figure = Figure nat

text \<open>What \<open>verify_host_name\<close> returns: the resolved name and the candidate names.\<close>

record HostNameVerif =
  host_name :: "string option"
  host_names :: "string list option"

text \<open>
  \<open>HostSummaryResult\<close>: the description and time span that the base result class
  stores, and the four fields that \<open>__init__\<close> sets to \<open>None\<close>.
\<close>

record HostSummaryResult =
  description :: "string option"
  timespan :: "TimeSpan option"
  host_entity :: "Host option"
  related_alerts :: "dataframe option"
  alert_timeline :: "figure option"
  related_bookmarks :: "dataframe option"

definition HostSummaryResult_init ::
  "string option \<Rightarrow> TimeSpan option \<Rightarrow> HostSummaryResult" where
  "HostSummaryResult_init d ts =
     \<lparr>description = d, timespan = ts, host_entity = None, related_alerts = None,
      alert_timeline = None, related_bookmarks = None\<rparr>"

text \<open>The arguments of \<open>run\<close>; \<open>None\<close> is the default of each.\<close>

record run_args =
  arg_value :: "string option"
  arg_data :: "dataframe option"
  arg_timespan :: "TimeSpan option"
  arg_options :: "string list option"
  arg_kwargs :: "(string \<times> pyval) list"

text \<open>
  The notebooklet instance: the option set in force (\<open>self.options\<close>), \<open>self.silent\<close>,
  \<open>self.timespan\<close>, \<open>self._last_result\<close>, the names of the loaded data providers
  (\<open>self.data_providers.providers\<close>) and the description of the class metadata.
\<close>

record notebooklet =
  nb_options :: "string list"
  nb_silent :: bool
  nb_timespan :: "TimeSpan option"
  nb_last_result :: "HostSummaryResult option"
  nb_providers :: "string list"
  nb_description :: string

text \<open>
  Every call that leaves the notebooklet: queries to the data provider and the Azure
  API, and output to the notebook.
\<close>

datatype event =
    VerifyHostName string TimeSpan
  | GetHeartbeat string
  | GetAznetTopology Host string
  | GetSubscriptionInfo pyval
  | GetResourceDetails pyval pyval
  | ListRelatedAlerts TimeSpan string
  | ListBookmarksForEntity TimeSpan string
  | DisplayTimeline dataframe string "string list" nat
  | Md string
  | NbMarkdown string "string option"
  | NbPrint Host
  | NbDataWait string
  | SetText string

text \<open>The events that fetch data from a collaborator.\<close>

fun is_fetch :: "event \<Rightarrow> bool" where
  "is_fetch (VerifyHostName _ _) = True"
| "is_fetch (GetHeartbeat _) = True"
| "is_fetch (GetAznetTopology _ _) = True"
| "is_fetch (GetSubscriptionInfo _) = True"
| "is_fetch (GetResourceDetails _ _) = True"
| "is_fetch (ListRelatedAlerts _ _) = True"
| "is_fetch (ListBookmarksForEntity _ _) = True"
| "is_fetch _ = False"

text \<open>
  The state of the process around a run: the events so far, oldest first, and the
  three memoisation caches of this module.
\<close>

record world =
  trace :: "event list"
  azure_cache :: "(Host, pyval) lru"
  alerts_cache :: "(TimeSpan \<times> string, dataframe) lru"
  bookmarks_cache :: "(TimeSpan \<times> string, dataframe) lru"

definition emit :: "event \<Rightarrow> world \<Rightarrow> world" where
  "emit e w = w\<lparr>trace := trace w @ [e]\<rparr>"

text \<open>
  The collaborators. The inherited \<open>Notebooklet.run\<close>, the helpers of
  \<open>nblib.azsent.host\<close>, the query provider, the Azure API client, the display layer
  and the built-in \<open>str\<close> on JSON values are not part of this module; each is a
  parameter. The inherited \<open>run\<close> may raise and may change the instance. The two calls
  of the Azure API client may raise, which the module handles; \<open>get_aznet_topology\<close>
  changes the entity it is given, so it returns the changed entity.
\<close>

record env =
  Notebooklet_run :: "run_args \<Rightarrow> notebooklet \<Rightarrow> (error + unit) \<times> notebooklet"
  verify_host_name :: "string \<Rightarrow> TimeSpan \<Rightarrow> HostNameVerif"
  get_heartbeat :: "string \<Rightarrow> Host"
  get_aznet_topology :: "Host \<Rightarrow> string \<Rightarrow> Host"
  get_subscription_info :: "pyval \<Rightarrow> error + pyval"
  get_resource_details :: "pyval \<Rightarrow> pyval \<Rightarrow> error + pyval"
  list_related_alerts :: "TimeSpan \<Rightarrow> string \<Rightarrow> dataframe"
  list_bookmarks_for_entity :: "TimeSpan \<Rightarrow> string \<Rightarrow> dataframe"
  display_timeline :: "dataframe \<Rightarrow> string \<Rightarrow> string list \<Rightarrow> nat \<Rightarrow> figure option"
  py_str :: "pyval \<Rightarrow> string"


text \<open>Truthiness of a JSON value, as \<open>if v:\<close> tests it.\<close>

definition py_truthy :: "pyval \<Rightarrow> bool" where
  "py_truthy v =
     (case v of PNone \<Rightarrow> False | PStr s \<Rightarrow> s \<noteq> [] | PList xs \<Rightarrow> xs \<noteq> []
      | PDict kvs \<Rightarrow> kvs \<noteq> [])"

section \<open>The helpers of the host summary module\<close>

subsection \<open>Azure resource details\<close>

text \<open>
  The key details that \<open>_azure_api_details\<close> extracts from the resource description:
  the names of the data disks, the ids of the network interfaces, the image (offer and
  sku, each \<open>{}\<close> when absent) and the summary dictionary, evaluated in the order of
  the source. A missing key or a value of the wrong shape raises.
\<close>

definition resource_disks :: "pyval \<Rightarrow> error + pyval list" where
  "resource_disks rd =
     bindE (getpath rd [''properties'', ''storageProfile'', ''dataDisks'']) (\<lambda>dd.
     bindE (py_iter dd) (mapE (\<lambda>disk. getitem disk ''name'')))"

definition resource_network_ints :: "pyval \<Rightarrow> error + pyval list" where
  "resource_network_ints rd =
     bindE (getpath rd [''properties'', ''networkProfile'', ''networkInterfaces'']) (\<lambda>ni.
     bindE (py_iter ni) (mapE (\<lambda>net. getitem net ''id'')))"

definition image_part :: "env \<Rightarrow> pyval \<Rightarrow> string \<Rightarrow> error + string" where
  "image_part env rd k =
     bindE (getpath rd [''properties'', ''storageProfile'']) (\<lambda>sp.
     bindE (dict_get sp ''imageReference'' (PDict [])) (\<lambda>ir.
     bindE (dict_get ir k (PDict [])) (\<lambda>v.
     Inr (py_str env v))))"

definition resource_image :: "env \<Rightarrow> pyval \<Rightarrow> error + string" where
  "resource_image env rd =
     bindE (image_part env rd ''offer'') (\<lambda>offer.
     bindE (image_part env rd ''sku'') (\<lambda>sku.
     Inr (offer @ '' '' @ sku)))"

definition resource_summary :: "env \<Rightarrow> pyval \<Rightarrow> error + pyval" where
  "resource_summary env rd =
     bindE (resource_disks rd) (\<lambda>disks.
     bindE (resource_network_ints rd) (\<lambda>network_ints.
     bindE (resource_image env rd) (\<lambda>image.
     bindE (getitem rd ''location'') (\<lambda>location.
     bindE (getpath rd [''properties'', ''hardwareProfile'', ''vmSize'']) (\<lambda>vm_size.
     bindE (getpath rd [''properties'', ''osProfile'', ''adminUsername'']) (\<lambda>admin.
     bindE (getitem rd ''tags'') (\<lambda>tags.
     Inr (PDict
       [(''Azure Location'', location),
        (''VM Size'', vm_size),
        (''Image'', PStr image),
        (''Disks'', PList disks),
        (''Admin User'', admin),
        (''Network Interfaces'', PList network_ints),
        (''Tags'', PStr (py_str env tags))]))))))))"

text \<open>
  The body of the \<open>try\<close> block of \<open>_azure_api_details\<close>: the subscription id is read
  from the entity before the first call of the API, the resource id and the
  subscription id before the second. Each call of the API is an event, whether it
  returns or raises.
\<close>

definition azure_api_details_try :: "env \<Rightarrow> Host \<Rightarrow> world \<Rightarrow> (error + pyval) \<times> world" where
  "azure_api_details_try env host_record w =
     (case bindE (get_AzureDetails host_record) (\<lambda>d. getitem d ''SubscriptionId'') of
        Inl e \<Rightarrow> (Inl e, w)
      | Inr sub_id \<Rightarrow>
          (let w1 = emit (GetSubscriptionInfo sub_id) w in
           case get_subscription_info env sub_id of
             Inl e \<Rightarrow> (Inl e, w1)
           | Inr sub_details \<Rightarrow>
               (case bindE (get_AzureDetails host_record) (\<lambda>d.
                     bindE (getitem d ''ResourceId'') (\<lambda>rid.
                     bindE (get_AzureDetails host_record) (\<lambda>d'.
                     bindE (getitem d' ''SubscriptionId'') (\<lambda>sid. Inr (rid, sid))))) of
                  Inl e \<Rightarrow> (Inl e, w1)
                | Inr (rid, sid) \<Rightarrow>
                    (let w2 = emit (GetResourceDetails rid sid) w1 in
                     case get_resource_details env rid sid of
                       Inl e \<Rightarrow> (Inl e, w2)
                     | Inr rd \<Rightarrow>
                         (bindE (resource_summary env rd) (\<lambda>resource_details.
                            Inr (PDict [(''resoure_details'', resource_details),
                                        (''sub_details'', sub_details)])),
                          w2)))))"

text \<open>\<open>except CloudError: return None\<close>; every other exception leaves the function.\<close>

definition azure_api_details_body :: "env \<Rightarrow> Host \<Rightarrow> world \<Rightarrow> (error + pyval) \<times> world" where
  "azure_api_details_body env host_record w =
     (case azure_api_details_try env host_record w of
        (Inl e, w') \<Rightarrow> if e = CloudError then (Inr PNone, w') else (Inl e, w')
      | (Inr v, w') \<Rightarrow> (Inr v, w'))"

text \<open>
  \<open>@lru_cache()\<close> on \<open>_azure_api_details\<close>: a value returned before for the same host
  record is returned again without running the body; a value that the body returns
  (also \<open>None\<close>) is stored, an exception is not.
\<close>

definition azure_api_details :: "env \<Rightarrow> Host \<Rightarrow> world \<Rightarrow> (error + pyval) \<times> world" where
  "azure_api_details env host_record w =
     (case map_of (azure_cache w) host_record of
        Some v \<Rightarrow> (Inr v, w\<lparr>azure_cache := lru_hit host_record (azure_cache w)\<rparr>)
      | None \<Rightarrow>
          (case azure_api_details_body env host_record w of
             (Inl e, w') \<Rightarrow> (Inl e, w')
           | (Inr v, w') \<Rightarrow>
               (Inr v, w'\<lparr>azure_cache := lru_store host_record v (azure_cache w')\<rparr>)))"

subsection \<open>Display of the host, alerts and bookmarks\<close>

text \<open>
  \<open>@set_text(docs, key)\<close> shows the documented text of the key and then runs the
  function; the event records the call.
\<close>

definition show_host_entity :: "Host \<Rightarrow> world \<Rightarrow> world" where
  "show_host_entity host w = emit (NbPrint host) (emit (SetText ''show_host_entity'') w)"

definition get_related_alerts_body ::
  "env \<Rightarrow> TimeSpan \<Rightarrow> string \<Rightarrow> world \<Rightarrow> dataframe \<times> world" where
  "get_related_alerts_body env ts hn w =
     (let w1 = emit (ListRelatedAlerts ts hn) w;
          alerts = list_related_alerts env ts hn
      in if \<not> df_empty alerts then
           (let host_alert_items = df_groups alerts ''AlertName'' in
            (alerts,
             emit (NbMarkdown (''Found '' @ str_nat (df_len alerts)
                     @ '' related alerts ('' @ str_nat (length host_alert_items)
                     @ '') types'') None) w1))
         else (alerts, emit (NbMarkdown ''No related alerts found.'' None) w1))"

definition get_related_alerts ::
  "env \<Rightarrow> TimeSpan \<Rightarrow> string \<Rightarrow> world \<Rightarrow> dataframe \<times> world" where
  "get_related_alerts env ts hn w =
     (case map_of (alerts_cache w) (ts, hn) of
        Some df \<Rightarrow> (df, w\<lparr>alerts_cache := lru_hit (ts, hn) (alerts_cache w)\<rparr>)
      | None \<Rightarrow>
          (case get_related_alerts_body env ts hn w of
             (df, w') \<Rightarrow> (df, w'\<lparr>alerts_cache := lru_store (ts, hn) df (alerts_cache w')\<rparr>)))"

definition show_alert_timeline :: "env \<Rightarrow> dataframe \<Rightarrow> world \<Rightarrow> figure option \<times> world" where
  "show_alert_timeline env alerts w =
     (let w1 = emit (SetText ''show_alert_timeline'') w in
      if df_len alerts > 1 then
        (display_timeline env alerts ''Related Alerts''
           [''AlertName'', ''TimeGenerated''] 200,
         emit (DisplayTimeline alerts ''Related Alerts''
           [''AlertName'', ''TimeGenerated''] 200) w1)
      else if df_len alerts = 1 then
        (None, emit (NbMarkdown ''A single alert cannot be plotted on a timeline.'' None) w1)
      else
        (None, emit (NbMarkdown ''No alerts available to be plotted.'' None) w1))"

definition get_related_bookmarks_body ::
  "env \<Rightarrow> TimeSpan \<Rightarrow> string \<Rightarrow> world \<Rightarrow> dataframe \<times> world" where
  "get_related_bookmarks_body env ts hn w =
     (let w1 = emit (NbDataWait ''Bookmarks'') w;
          entity_id = [CHR 0x27] @ hn @ [CHR 0x27];
          w2 = emit (ListBookmarksForEntity ts entity_id) w1;
          host_bkmks = list_bookmarks_for_entity env ts entity_id
      in if \<not> df_empty host_bkmks then
           (host_bkmks,
            emit (NbMarkdown (str_nat (df_len host_bkmks)
                    @ '' investigation bookmarks found for this host.'') None) w2)
         else (host_bkmks, emit (NbMarkdown ''No bookmarks found.'' None) w2))"

definition get_related_bookmarks ::
  "env \<Rightarrow> TimeSpan \<Rightarrow> string \<Rightarrow> world \<Rightarrow> dataframe \<times> world" where
  "get_related_bookmarks env ts hn w =
     (case map_of (bookmarks_cache w) (ts, hn) of
        Some df \<Rightarrow> (df, w\<lparr>bookmarks_cache := lru_hit (ts, hn) (bookmarks_cache w)\<rparr>)
      | None \<Rightarrow>
          (case get_related_bookmarks_body env ts hn w of
             (df, w') \<Rightarrow>
               (df, w'\<lparr>bookmarks_cache := lru_store (ts, hn) df (bookmarks_cache w')\<rparr>)))"

section \<open>HostSummary.run\<close>

text \<open>
  The host entity of the run: a fresh entity for the host name, replaced by the
  heartbeat entity when \<open>heartbeat\<close> is requested; with \<open>azure_net\<close>, an empty entity
  is replaced by a fresh one and the topology helper fills the entity in.
\<close>

definition fetch_host :: "env \<Rightarrow> notebooklet \<Rightarrow> string \<Rightarrow> world \<Rightarrow> Host \<times> world" where
  "fetch_host env self hn w =
     (case (if ''heartbeat'' \<in> set (nb_options self)
            then (get_heartbeat env hn, emit (GetHeartbeat hn) w)
            else (new_Host hn, w)) of
        (h1, w1) \<Rightarrow>
          if ''azure_net'' \<in> set (nb_options self) then
            (let h2 = (if h1 = [] then new_Host hn else h1)
             in (get_aznet_topology env h2 hn, emit (GetAznetTopology h2 hn) w1))
          else (h1, w1))"

text \<open>\<open>"Environment" in host_entity and host_entity.Environment == "Azure"\<close>\<close>

definition host_is_azure :: "Host \<Rightarrow> bool" where
  "host_is_azure h =
     (''Environment'' \<in> fst ` set h \<and> map_of h ''Environment'' = Some (PStr ''Azure''))"

text \<open>
  The Azure details: only with the \<open>azure_api\<close> option, a loaded \<open>azuredata\<close> provider
  and an Azure host. A truthy answer fills \<open>ResourceDetails\<close> and
  \<open>SubscriptionDetails\<close> of the entity's \<open>AzureDetails\<close>; each right-hand side is
  evaluated before its assignment.
\<close>

definition azure_step :: "env \<Rightarrow> notebooklet \<Rightarrow> Host \<Rightarrow> world \<Rightarrow> (error + Host) \<times> world" where
  "azure_step env self h w =
     (if ''azure_api'' \<in> set (nb_options self)
         \<and> ''azuredata'' \<in> set (nb_providers self)
         \<and> host_is_azure h
      then
        (case azure_api_details env h w of
           (Inl e, w') \<Rightarrow> (Inl e, w')
         | (Inr azure_api, w') \<Rightarrow>
             if py_truthy azure_api then
               (bindE (getitem azure_api ''resoure_details'') (\<lambda>rd.
                bindE (set_AzureDetails_item h ''ResourceDetails'' rd) (\<lambda>h1.
                bindE (getitem azure_api ''sub_details'') (\<lambda>sd.
                set_AzureDetails_item h1 ''SubscriptionDetails'' sd))),
                w')
             else (Inr h, w'))
      else (Inr h, w))"

text \<open>
  The related alerts: the timeline is assigned only when the table has a row; the
  table is assigned in any case.
\<close>

definition fetch_alerts ::
  "env \<Rightarrow> notebooklet \<Rightarrow> TimeSpan \<Rightarrow> string \<Rightarrow> HostSummaryResult \<Rightarrow> world
     \<Rightarrow> HostSummaryResult \<times> world" where
  "fetch_alerts env self ts hn result w =
     (if ''alerts'' \<in> set (nb_options self) then
        (case get_related_alerts env ts hn w of
           (alerts, w1) \<Rightarrow>
             (case (if df_len alerts > 0
                    then (case show_alert_timeline env alerts w1 of
                            (fig, w2) \<Rightarrow> (result\<lparr>alert_timeline := fig\<rparr>, w2))
                    else (result, w1)) of
                (result1, w2) \<Rightarrow> (result1\<lparr>related_alerts := Some alerts\<rparr>, w2)))
      else (result, w))"

definition fetch_bookmarks ::
  "env \<Rightarrow> notebooklet \<Rightarrow> TimeSpan \<Rightarrow> string \<Rightarrow> HostSummaryResult \<Rightarrow> world
     \<Rightarrow> HostSummaryResult \<times> world" where
  "fetch_bookmarks env self ts hn result w =
     (if ''bookmarks'' \<in> set (nb_options self) then
        (case get_related_bookmarks env ts hn w of
           (bkmks, w1) \<Rightarrow> (result\<lparr>related_bookmarks := Some bkmks\<rparr>, w1))
      else (result, w))"

text \<open>
  The run once the host name \<open>hn\<close> is settled (source lines 188 to 233). \<open>ts\<close> is
  \<open>self.timespan\<close>, which the run has just set to its \<open>timespan\<close> argument. An
  exception leaves \<open>self._last_result\<close> as it was.
\<close>

definition run_resolved ::
  "env \<Rightarrow> notebooklet \<Rightarrow> TimeSpan \<Rightarrow> string \<Rightarrow> HostSummaryResult \<Rightarrow> world
     \<Rightarrow> (error + HostSummaryResult) \<times> notebooklet \<times> world" where
  "run_resolved env self ts hn result w =
     (case fetch_host env self hn w of
        (h, w1) \<Rightarrow>
          (case azure_step env self h w1 of
             (Inl e, w2) \<Rightarrow> (Inl e, self, w2)
           | (Inr h', w2) \<Rightarrow>
               (let result1 = result\<lparr>host_entity := Some h'\<rparr>;
                    w3 = (if \<not> nb_silent self then show_host_entity h' w2 else w2)
                in case fetch_alerts env self ts hn result1 w3 of
                     (result2, w4) \<Rightarrow>
                       (case fetch_bookmarks env self ts hn result2 w4 of
                          (result3, w5) \<Rightarrow>
                            (Inr result3, self\<lparr>nb_last_result := Some result3\<rparr>, w5)))))"

text \<open>The two messages of the host name resolution.\<close>

definition ambiguous_message :: "string \<Rightarrow> string" where
  "ambiguous_message v = ''Could not obtain unique host name from '' @ v @ ''. Aborting.''"

definition unresolved_message :: "string \<Rightarrow> string" where
  "unresolved_message v =
     ''Could not find event records for host '' @ v @ ''. '' @ ''Results may be unreliable.''"

text \<open>Truthiness of the candidate list: \<open>None\<close> and the empty list are falsy.\<close>

definition names_truthy :: "string list option \<Rightarrow> bool" where
  "names_truthy ns = (case ns of None \<Rightarrow> False | Some xs \<Rightarrow> xs \<noteq> [])"

text \<open>
  The run after validation (source lines 166 to 186): the fresh result, the
  verification of the host name, the early return when candidates are listed, and the
  choice of the host name: the verified name, or the value with a warning when the
  verified name is \<open>None\<close> or empty.
\<close>

definition run_validated ::
  "env \<Rightarrow> notebooklet \<Rightarrow> string \<Rightarrow> TimeSpan \<Rightarrow> world
     \<Rightarrow> (error + HostSummaryResult) \<times> notebooklet \<times> world" where
  "run_validated env self0 v ts w =
     (let self = self0\<lparr>nb_timespan := Some ts\<rparr>;
          result = HostSummaryResult_init (Some (nb_description self)) (Some ts);
          w1 = emit (VerifyHostName v ts) w;
          host_verif = verify_host_name env v ts
      in if names_truthy (host_names host_verif) then
           (Inr result, self\<lparr>nb_last_result := Some result\<rparr>,
            emit (Md (ambiguous_message v)) w1)
         else
           (case host_name host_verif of
              None \<Rightarrow>
                run_resolved env self ts v result
                  (emit (NbMarkdown (unresolved_message v) (Some ''orange'')) w1)
            | Some n \<Rightarrow>
                if n = [] then
                  run_resolved env self ts v result
                    (emit (NbMarkdown (unresolved_message v) (Some ''orange'')) w1)
                else run_resolved env self ts n result w1))"

text \<open>
  \<open>HostSummary.run\<close> (source lines 109 to 233): the \<open>set_text\<close> decorator, the inherited
  \<open>run\<close>, the two required parameters, then the run proper. \<open>not value\<close> holds for
  \<open>None\<close> and for the empty string, \<open>not timespan\<close> for \<open>None\<close>.
\<close>

definition HostSummary_run ::
  "env \<Rightarrow> run_args \<Rightarrow> notebooklet \<Rightarrow> world
     \<Rightarrow> (error + HostSummaryResult) \<times> notebooklet \<times> world" where
  "HostSummary_run env args self w =
     (let w0 = emit (SetText ''run'') w in
      case Notebooklet_run env args self of
        (Inl e, self1) \<Rightarrow> (Inl e, self1, w0)
      | (Inr u, self1) \<Rightarrow>
          (case arg_value args of
             None \<Rightarrow> (Inl (MsticnbMissingParameterError ''value''), self1, w0)
           | Some v \<Rightarrow>
               if v = [] then (Inl (MsticnbMissingParameterError ''value''), self1, w0)
               else
                 (case arg_timespan args of
                    None \<Rightarrow> (Inl (MsticnbMissingParameterError ''timespan.''), self1, w0)
                  | Some ts \<Rightarrow> run_validated env self1 v ts w0)))"

section \<open>Configuration options\<close>

text \<open>
  The option module is exercised by the tests only: \<open>get_opt\<close> and \<open>set_opt\<close> on the
  option names, with \<open>verbose\<close>, \<open>debug\<close> and \<open>silent\<close> the names in use and any value
  accepted for a known name.
\<close>

datatype opt_value = OBool bool | OInt int | OStr string

text \<open>
  Modelled from the spec: the option definitions of the option module, which is not
  among the sources: a small set of named options, each with a default and a
  description (\<open>verbose (default=True): Show progress messages.\<close>).
\<close>

definition option_defs :: "(string \<times> opt_value \<times> string) list" where
  "option_defs =
     [(''verbose'', OBool True, ''Show progress messages.''),
      (''debug'', OBool False, ''Turn on debug output.''),
      (''silent'', OBool False, ''Turn off all output.'')]"

definition known_option :: "string \<Rightarrow> bool" where
  "known_option name = (name \<in> set (map fst option_defs))"

text \<open>The configuration state: the values set so far, by option name.\<close>

type_synonym config = "(string \<times> opt_value) list"

text \<open>
  Modelled from the spec: \<open>get_opt\<close> of the option module: the value of a known option
  (its default when it has not been set); an unknown option name fails with a lookup
  error.
\<close>

definition get_opt :: "config \<Rightarrow> string \<Rightarrow> error + opt_value" where
  "get_opt cfg name =
     (if known_option name then
        (case map_of cfg name of
           Some v \<Rightarrow> Inr v
         | None \<Rightarrow>
             (case map_of option_defs name of
                Some (dflt, descr) \<Rightarrow> Inr dflt
              | None \<Rightarrow> Inl (KeyError name)))
      else Inl (KeyError name))"

text \<open>
  Modelled from the spec: \<open>set_opt\<close> of the option module: a known option takes the
  value; an unknown option name fails with a lookup error.
\<close>

definition set_opt :: "config \<Rightarrow> string \<Rightarrow> opt_value \<Rightarrow> (error + unit) \<times> config" where
  "set_opt cfg name v =
     (if known_option name then (Inr (), AList.update name v cfg)
      else (Inl (KeyError name), cfg))"

section \<open>Discovery of notebooklet classes\<close>

text \<open>
  A class object: its name, the module that defines it, its direct base classes and
  the metadata declared with it (keywords, entity types, description).
\<close>

datatype pyclass =
  PyClass (cls_name: string) (cls_module: string) (cls_bases: "pyclass list")
    (cls_keywords: "string list") (cls_entity_types: "string list") (cls_description: string)

text \<open>\<open>issubclass(c, b)\<close>: \<open>c\<close> is \<open>b\<close>, or a base of \<open>c\<close> is a subclass of \<open>b\<close>.\<close>

fun issubclass :: "pyclass \<Rightarrow> pyclass \<Rightarrow> bool" where
  "issubclass (PyClass n m bs ks es d) b =
     (PyClass n m bs ks es d = b \<or> list_ex (\<lambda>p. issubclass p b) bs)"

text \<open>The base notebooklet type, as the tests import it.\<close>

definition Notebooklet :: pyclass where
  "Notebooklet = PyClass ''Notebooklet'' ''msticnb.notebooklet'' [] [] [] []"

text \<open>
  A package tree: a module with the outcome of importing it (an error, or the classes
  bound at module level, imported ones included), or a package with its children.
\<close>

datatype pynode =
    Module string "error + pyclass list"
  | Package string "pynode list"

definition dotted :: "string list \<Rightarrow> string" where
  "dotted segs = (case segs of [] \<Rightarrow> [] | s # ss \<Rightarrow> foldl (\<lambda>acc x. acc @ ''.'' @ x) s ss)"

text \<open>
  Modelled from the spec: the inspection criteria of the module scanner, which is not
  among the sources: a class is kept when it is a direct or transitive subclass of the
  base notebooklet type, is defined within the scanned module and is not the base
  class itself.
\<close>

definition is_notebooklet_class :: "string \<Rightarrow> pyclass \<Rightarrow> bool" where
  "is_notebooklet_class mod_name c =
     (issubclass c Notebooklet \<and> cls_module c = mod_name \<and> c \<noteq> Notebooklet)"

text \<open>
  Modelled from the spec: the module scanner, which is not among the sources: it
  walks the package tree, skips a module whose import fails, and returns the classes
  kept, each with the path segments of its module.
\<close>

fun scan :: "string list \<Rightarrow> pynode \<Rightarrow> (string list \<times> pyclass) list" where
  "scan path (Module n (Inl e)) = []"
| "scan path (Module n (Inr classes)) =
     map (\<lambda>c. (path @ [n], c)) (filter (is_notebooklet_class (dotted (path @ [n]))) classes)"
| "scan path (Package n children) = concat (map (scan (path @ [n])) children)"

text \<open>
  The descriptor of a discovered class: name, owning module, declared keywords,
  declared entity types, description, and the class itself.
\<close>

record descriptor =
  d_name :: string
  d_module :: string
  d_keywords :: "string list"
  d_entity_types :: "string list"
  d_description :: string
  d_class :: pyclass

definition descriptor_of :: "pyclass \<Rightarrow> descriptor" where
  "descriptor_of c =
     \<lparr>d_name = cls_name c, d_module = cls_module c, d_keywords = cls_keywords c,
      d_entity_types = cls_entity_types c, d_description = cls_description c, d_class = c\<rparr>"

text \<open>
  The registry: the descriptors by short name, and the namespace view: for each
  class the path segments under which it is addressed.
\<close>

record registry =
  reg_classes :: "(string \<times> descriptor) list"
  reg_paths :: "(string list \<times> string) list"

text \<open>
  Modelled from the spec: \<open>discover_modules\<close>, which is not among the sources: the
  registry built from one scan. A later class of the same short name replaces the
  earlier one.
\<close>

definition discover_modules :: "pynode \<Rightarrow> registry" where
  "discover_modules root =
     (let found = scan [] root in
      \<lparr>reg_classes =
         foldl (\<lambda>acc pc. AList.update (cls_name (snd pc)) (descriptor_of (snd pc)) acc) [] found,
       reg_paths = map (\<lambda>pc. (fst pc, cls_name (snd pc))) found\<rparr>)"

text \<open>
  Modelled from the spec: \<open>iter_classes\<close> of the registry, as the test uses it: the
  (name, class) pairs.
\<close>

definition iter_classes :: "registry \<Rightarrow> (string \<times> pyclass) list" where
  "iter_classes reg = map (\<lambda>nd. (fst nd, d_class (snd nd))) (reg_classes reg)"

section \<open>Matching of keywords\<close>









section \<open>Observations on a run\<close>

text \<open>The events that a step adds to the trace: those of \<open>w'\<close> after those of \<open>w\<close>.\<close>

definition new_events :: "world \<Rightarrow> world \<Rightarrow> event list" where
  "new_events w w' = drop (length (trace w)) (trace w')"

text \<open>No event of \<open>w\<close> is lost or changed in \<open>w'\<close>: the trace only grows.\<close>

definition trace_extends :: "world \<Rightarrow> world \<Rightarrow> bool" where
  "trace_extends w w' = (take (length (trace w)) (trace w') = trace w)"

text \<open>The event is a call of the Azure API on which the API raises \<open>CloudError\<close>.\<close>

fun raises_cloud_error :: "env \<Rightarrow> event \<Rightarrow> bool" where
  "raises_cloud_error env (GetSubscriptionInfo sid) =
     (get_subscription_info env sid = Inl CloudError)"
| "raises_cloud_error env (GetResourceDetails rid sid) =
     (get_resource_details env rid sid = Inl CloudError)"
| "raises_cloud_error env _ = False"

section \<open>Example runs\<close>

text \<open>
  A concrete setting in which the theorems below are exercised. The inherited \<open>run\<close>
  stores the requested options (all five when none are given). Host \<open>web\<close> has two
  candidate names, host \<open>ghost\<close> is unknown to the verification, any other name is
  verified as it is. Every host is an Azure host with a subscription and a resource
  id; the Azure API raises \<open>CloudError\<close> on every call. Host \<open>quiet\<close> has no related
  alert, host \<open>ghost\<close> has one, any other host two; no host has bookmarks.
\<close>

definition example_timespan :: TimeSpan where
  "example_timespan = TimeSpan 0 86400"

definition example_alert :: "string \<Rightarrow> string \<Rightarrow> (string \<times> pyval) list" where
  "example_alert name time = [(''AlertName'', PStr name), (''TimeGenerated'', PStr time)]"

definition no_alerts :: dataframe where
  "no_alerts = \<lparr>df_columns = [''AlertName'', ''TimeGenerated''], df_rows = []\<rparr>"

definition one_alert :: dataframe where
  "one_alert =
     \<lparr>df_columns = [''AlertName'', ''TimeGenerated''],
      df_rows = [example_alert ''Suspicious logon'' ''2020-06-01 10:00'']\<rparr>"

definition two_alerts :: dataframe where
  "two_alerts =
     \<lparr>df_columns = [''AlertName'', ''TimeGenerated''],
      df_rows = [example_alert ''Suspicious logon'' ''2020-06-01 10:00'',
                 example_alert ''Malware detected'' ''2020-06-01 11:30'']\<rparr>"

definition no_bookmarks :: dataframe where
  "no_bookmarks = \<lparr>df_columns = [''BookmarkName''], df_rows = []\<rparr>"

definition example_host :: "string \<Rightarrow> Host" where
  "example_host hn =
     [(''HostName'', PStr hn),
      (''Environment'', PStr ''Azure''),
      (''AzureDetails'',
         PDict [(''SubscriptionId'', PStr ''sub-1''), (''ResourceId'', PStr ''res-1'')])]"

definition all_options :: "string list" where
  "all_options = [''heartbeat'', ''azure_net'', ''alerts'', ''bookmarks'', ''azure_api'']"

definition example_env :: env where
  "example_env =
     \<lparr>Notebooklet_run =
        (\<lambda>args self.
           (Inr (),
            self\<lparr>nb_options :=
                   (case arg_options args of None \<Rightarrow> all_options | Some os \<Rightarrow> os)\<rparr>)),
      verify_host_name =
        (\<lambda>v ts.
           if v = ''web'' then \<lparr>host_name = None, host_names = Some [''web01'', ''web02'']\<rparr>
           else if v = ''ghost'' then \<lparr>host_name = None, host_names = None\<rparr>
           else \<lparr>host_name = Some v, host_names = None\<rparr>),
      get_heartbeat = example_host,
      get_aznet_topology = (\<lambda>h hn. h),
      get_subscription_info = (\<lambda>sub_id. Inl CloudError),
      get_resource_details = (\<lambda>rid sid. Inl CloudError),
      list_related_alerts =
        (\<lambda>ts hn. if hn = ''quiet'' then no_alerts
                  else if hn = ''ghost'' then one_alert else two_alerts),
      list_bookmarks_for_entity = (\<lambda>ts entity_id. no_bookmarks),
      display_timeline = (\<lambda>df title cols height. Some (Figure 1)),
      py_str = (\<lambda>v. case v of PStr s \<Rightarrow> s | _ \<Rightarrow> ''{}'')\<rparr>"

text \<open>The same setting with an inherited \<open>run\<close> that raises.\<close>

definition raising_env :: env where
  "raising_env =
     example_env\<lparr>Notebooklet_run := (\<lambda>args self. (Inl (OtherError ''Notebooklet.run''), self))\<rparr>"

text \<open>
  The same setting with an Azure API that answers both calls, the resource description
  being a dictionary without the key \<open>properties\<close>.
\<close>

definition malformed_env :: env where
  "malformed_env =
     example_env\<lparr>get_subscription_info := (\<lambda>sub_id. Inr (PDict [])),
                  get_resource_details := (\<lambda>rid sid. Inr (PDict []))\<rparr>"

definition example_nb :: "string \<Rightarrow> notebooklet" where
  "example_nb descr =
     \<lparr>nb_options = [], nb_silent = False, nb_timespan = None, nb_last_result = None,
      nb_providers = [''azuredata''], nb_description = descr\<rparr>"

definition empty_world :: world where
  "empty_world = \<lparr>trace = [], azure_cache = [], alerts_cache = [], bookmarks_cache = []\<rparr>"

definition example_args :: "string option \<Rightarrow> TimeSpan option \<Rightarrow> run_args" where
  "example_args v ts =
     \<lparr>arg_value = v, arg_data = None, arg_timespan = ts, arg_options = None, arg_kwargs = []\<rparr>"

section \<open>Example registry\<close>

text \<open>
  Modelled from the spec: the \<open>HostSummary\<close> class as discovery sees it. Its metadata is
  read from a file that is not among the sources; the keywords \<open>host\<close>, \<open>linux\<close> and
  \<open>azure\<close> are declared, and the description is the one shown for the notebooklet.
\<close>

definition HostSummary :: pyclass where
  "HostSummary =
     PyClass ''HostSummary'' ''msticnb.nb.azsent.host.host_summary'' [Notebooklet]
       [''host'', ''linux'', ''azure''] [] ''Host summary''"


text \<open>
  Two more classes and a package tree to scan: the account summary that the tests
  exercise, a class derived from \<open>HostSummary\<close>, a helper class that is no notebooklet,
  and a module whose import fails. The host summary module binds the base class by
  importing it; the account summary module re-exports \<open>HostSummary\<close>.
\<close>

definition AccountSummary :: pyclass where
  "AccountSummary =
     PyClass ''AccountSummary'' ''msticnb.nb.azsent.account.account_summary'' [Notebooklet]
       [''account'', ''azure'', ''linux''] [''account''] ''Account summary''"

definition WinHostSummary :: pyclass where
  "WinHostSummary =
     PyClass ''WinHostSummary'' ''msticnb.nb.azsent.host.win_host'' [HostSummary]
       [''Host'', '' Windows '', ''azure''] [''host''] ''Windows host summary''"

definition HostSummaryResult_class :: pyclass where
  "HostSummaryResult_class =
     PyClass ''HostSummaryResult'' ''msticnb.nb.azsent.host.host_summary'' []
       [] [] ''Host details results''"

definition example_tree :: pynode where
  "example_tree =
     Package ''msticnb''
       [Module ''notebooklet'' (Inr [Notebooklet]),
        Package ''nb''
          [Package ''azsent''
             [Package ''host''
                [Module ''win_host'' (Inr [Notebooklet, HostSummary, WinHostSummary]),
                 Module ''host_summary'' (Inr [Notebooklet, HostSummaryResult_class, HostSummary]),
                 Module ''broken'' (Inl (OtherError ''ImportError''))],
              Package ''account''
                [Module ''account_summary'' (Inr [Notebooklet, HostSummary, AccountSummary])]]]]"

definition example_registry :: registry where
  "example_registry = discover_modules example_tree"

section \<open>Facts about the run\<close>

subsection \<open>Events, caches and results\<close>

lemma trace_emit [simp]: "trace (emit e w) = trace w @ [e]"
  by (simp add: emit_def)

lemma caches_emit [simp]:
  "azure_cache (emit e w) = azure_cache w"
  "alerts_cache (emit e w) = alerts_cache w"
  "bookmarks_cache (emit e w) = bookmarks_cache w"
  by (simp_all add: emit_def)

lemma bindE_simps [simp]:
  "bindE (Inl e) f = Inl e"
  "bindE (Inr x) f = f x"
  by (simp_all add: bindE_def)

lemma init_fields [simp]:
  "related_alerts (HostSummaryResult_init d t) = None"
  "alert_timeline (HostSummaryResult_init d t) = None"
  "host_entity (HostSummaryResult_init d t) = None"
  "related_bookmarks (HostSummaryResult_init d t) = None"
  "description (HostSummaryResult_init d t) = d"
  "timespan (HostSummaryResult_init d t) = t"
  by (simp_all add: HostSummaryResult_init_def)

lemmas example_defs =
  example_env_def raising_env_def malformed_env_def example_nb_def empty_world_def
  example_args_def example_timespan_def all_options_def example_host_def no_alerts_def
  one_alert_def two_alerts_def no_bookmarks_def example_alert_def

lemmas run_defs =
  HostSummary_run_def run_validated_def run_resolved_def fetch_host_def azure_step_def
  azure_api_details_def azure_api_details_body_def azure_api_details_try_def
  fetch_alerts_def fetch_bookmarks_def get_related_alerts_def get_related_alerts_body_def
  get_related_bookmarks_def get_related_bookmarks_body_def show_alert_timeline_def
  show_host_entity_def host_is_azure_def names_truthy_def HostSummaryResult_init_def
  emit_def bindE_def getitem_def get_AzureDetails_def py_truthy_def df_len_def df_empty_def
  lru_store_def lru_hit_def new_Host_def Let_def

lemma new_events_append: "trace w' = trace w @ es \<Longrightarrow> new_events w w' = es"
  by (simp add: new_events_def)

lemma new_events_self [simp]: "new_events w w = []"
  by (simp add: new_events_def)

lemma new_events_cache_upd [simp]:
  "new_events w (w'\<lparr>azure_cache := a\<rparr>) = new_events w w'"
  "new_events w (w'\<lparr>alerts_cache := b\<rparr>) = new_events w w'"
  "new_events w (w'\<lparr>bookmarks_cache := c\<rparr>) = new_events w w'"
  by (simp_all add: new_events_def)

lemma trace_extends_refl [simp]: "trace_extends w w"
  by (simp add: trace_extends_def)

lemma trace_extends_cache_upd [simp]:
  "trace_extends w (w'\<lparr>azure_cache := a\<rparr>) = trace_extends w w'"
  "trace_extends w (w'\<lparr>alerts_cache := b\<rparr>) = trace_extends w w'"
  "trace_extends w (w'\<lparr>bookmarks_cache := c\<rparr>) = trace_extends w w'"
  by (simp_all add: trace_extends_def)

lemma trace_extends_iff: "trace_extends w w' \<longleftrightarrow> trace w' = trace w @ new_events w w'"
  unfolding trace_extends_def new_events_def
  by (metis append_take_drop_id append_eq_conv_conj)

lemma trace_extends_trans:
  assumes "trace_extends w w1" "trace_extends w1 w2"
  shows "trace_extends w w2 \<and> new_events w w2 = new_events w w1 @ new_events w1 w2"
proof -
  from assms have 1: "trace w1 = trace w @ new_events w w1"
    and 2: "trace w2 = trace w1 @ new_events w1 w2"
    by (simp_all add: trace_extends_iff)
  have 3: "trace w2 = trace w @ (new_events w w1 @ new_events w1 w2)"
    by (subst 2, subst 1) simp
  have 4: "new_events w w2 = new_events w w1 @ new_events w1 w2"
    by (rule new_events_append[OF 3])
  from 3 4 show ?thesis by (simp add: trace_extends_iff)
qed

lemma emit_step: "trace_extends w (emit e w)" "new_events w (emit e w) = [e]"
  by (simp_all add: trace_extends_def new_events_def)

lemma trace_extends_emit [simp]: "trace_extends w w' \<Longrightarrow> trace_extends w (emit e w')"
  using trace_extends_trans[of w w' "emit e w'"] emit_step(1)[of w' e] by blast

lemma new_events_emit [simp]:
  "trace_extends w w' \<Longrightarrow> new_events w (emit e w') = new_events w w' @ [e]"
  using trace_extends_trans[of w w' "emit e w'"] emit_step[of w' e] by simp

subsection \<open>The Azure details step\<close>

lemma azure_try_props:
  "trace_extends w (snd (azure_api_details_try env h w))
   \<and> azure_cache (snd (azure_api_details_try env h w)) = azure_cache w
   \<and> alerts_cache (snd (azure_api_details_try env h w)) = alerts_cache w
   \<and> bookmarks_cache (snd (azure_api_details_try env h w)) = bookmarks_cache w
   \<and> (list_ex (raises_cloud_error env) (new_events w (snd (azure_api_details_try env h w)))
        \<longrightarrow> fst (azure_api_details_try env h w) = Inl CloudError)"
proof (cases "bindE (get_AzureDetails h) (\<lambda>d. getitem d ''SubscriptionId'')")
  case (Inl e)
  then show ?thesis by (simp add: azure_api_details_try_def)
next
  case sub: (Inr sub_id)
  show ?thesis
  proof (cases "get_subscription_info env sub_id")
    case (Inl e)
    with sub show ?thesis by (simp add: azure_api_details_try_def Let_def)
  next
    case info: (Inr sub_details)
    show ?thesis
    proof (cases "bindE (get_AzureDetails h) (\<lambda>d.
                     bindE (getitem d ''ResourceId'') (\<lambda>rid.
                     bindE (get_AzureDetails h) (\<lambda>d'.
                     bindE (getitem d' ''SubscriptionId'') (\<lambda>sid. Inr (rid, sid)))))")
      case (Inl e)
      with sub info show ?thesis by (simp add: azure_api_details_try_def Let_def)
    next
      case ids: (Inr p)
      obtain rid sid where p: "p = (rid, sid)" by (cases p)
      show ?thesis
      proof (cases "get_resource_details env rid sid")
        case (Inl e)
        with sub info ids p show ?thesis by (simp add: azure_api_details_try_def Let_def)
      next
        case (Inr rd)
        with sub info ids p show ?thesis by (simp add: azure_api_details_try_def Let_def)
      qed
    qed
  qed
qed

lemma azure_body_snd:
  "snd (azure_api_details_body env h w) = snd (azure_api_details_try env h w)"
  by (simp add: azure_api_details_body_def split: prod.splits sum.splits)

lemma azure_body_cloud:
  "fst (azure_api_details_try env h w) = Inl CloudError
     \<Longrightarrow> fst (azure_api_details_body env h w) = Inr PNone"
  by (cases "azure_api_details_try env h w") (simp add: azure_api_details_body_def)

lemma azure_body_props:
  "trace_extends w (snd (azure_api_details_body env h w))
   \<and> azure_cache (snd (azure_api_details_body env h w)) = azure_cache w
   \<and> alerts_cache (snd (azure_api_details_body env h w)) = alerts_cache w
   \<and> bookmarks_cache (snd (azure_api_details_body env h w)) = bookmarks_cache w
   \<and> (list_ex (raises_cloud_error env) (new_events w (snd (azure_api_details_body env h w)))
        \<longrightarrow> fst (azure_api_details_body env h w) = Inr PNone)"
  using azure_try_props[of w env h] azure_body_cloud[of env h w]
  unfolding azure_body_snd by blast

lemma azure_details_props:
  "trace_extends w (snd (azure_api_details env h w))
   \<and> alerts_cache (snd (azure_api_details env h w)) = alerts_cache w
   \<and> bookmarks_cache (snd (azure_api_details env h w)) = bookmarks_cache w
   \<and> (list_ex (raises_cloud_error env) (new_events w (snd (azure_api_details env h w)))
        \<longrightarrow> fst (azure_api_details env h w) = Inr PNone
            \<and> map_of (azure_cache (snd (azure_api_details env h w))) h = Some PNone)"
proof (cases "map_of (azure_cache w) h")
  case (Some v)
  then show ?thesis by (simp add: azure_api_details_def)
next
  case None
  obtain a w' where b: "azure_api_details_body env h w = (a, w')"
    by (cases "azure_api_details_body env h w")
  from azure_body_props[of w env h] b
  have p: "trace_extends w w'" "alerts_cache w' = alerts_cache w"
    "bookmarks_cache w' = bookmarks_cache w"
    "list_ex (raises_cloud_error env) (new_events w w') \<longrightarrow> a = Inr PNone"
    by simp_all
  show ?thesis
  proof (cases a)
    case (Inl e)
    with None b p show ?thesis by (simp add: azure_api_details_def)
  next
    case (Inr v)
    with None b p show ?thesis by (simp add: azure_api_details_def lru_store_def)
  qed
qed

lemma azure_step_props:
  "trace_extends w (snd (azure_step env self h w))
   \<and> alerts_cache (snd (azure_step env self h w)) = alerts_cache w
   \<and> bookmarks_cache (snd (azure_step env self h w)) = bookmarks_cache w
   \<and> (list_ex (raises_cloud_error env) (new_events w (snd (azure_step env self h w)))
        \<longrightarrow> fst (azure_step env self h w) = Inr h
            \<and> map_of (azure_cache (snd (azure_step env self h w))) h = Some PNone
            \<and> ''azure_api'' \<in> set (nb_options self)
            \<and> ''azuredata'' \<in> set (nb_providers self) \<and> host_is_azure h)"
proof (cases "''azure_api'' \<in> set (nb_options self) \<and> ''azuredata'' \<in> set (nb_providers self)
               \<and> host_is_azure h")
  case False
  then show ?thesis by (auto simp: azure_step_def)
next
  case True
  obtain a w' where d: "azure_api_details env h w = (a, w')"
    by (cases "azure_api_details env h w")
  from azure_details_props[of w env h] d
  have p: "trace_extends w w'" "alerts_cache w' = alerts_cache w"
    "bookmarks_cache w' = bookmarks_cache w"
    "list_ex (raises_cloud_error env) (new_events w w') \<longrightarrow>
       a = Inr PNone \<and> map_of (azure_cache w') h = Some PNone"
    by simp_all
  show ?thesis
  proof (cases a)
    case (Inl e)
    with True d p show ?thesis by (simp add: azure_step_def)
  next
    case (Inr v)
    with True d p show ?thesis by (auto simp: azure_step_def py_truthy_def)
  qed
qed

lemma bindE_Inl_iff: "bindE m f = Inl e \<longleftrightarrow> (m = Inl e \<or> (\<exists>x. m = Inr x \<and> f x = Inl e))"
  by (cases m) simp_all

lemma getitem_not_cloud: "getitem d k \<noteq> Inl CloudError"
  by (simp add: getitem_def split: pyval.splits option.splits)

lemma set_AzureDetails_item_not_cloud: "set_AzureDetails_item h k v \<noteq> Inl CloudError"
  by (auto simp: set_AzureDetails_item_def get_AzureDetails_def setitem_def bindE_Inl_iff
      split: option.splits pyval.splits)

lemma azure_details_not_cloud: "fst (azure_api_details env h w) \<noteq> Inl CloudError"
  by (auto simp: azure_api_details_def azure_api_details_body_def
      split: option.splits prod.splits sum.splits if_splits)

lemma azure_step_not_cloud: "fst (azure_step env self h w) \<noteq> Inl CloudError"
proof (cases "azure_api_details env h w")
  case (Pair a w')
  with azure_details_not_cloud[of env h w] have "a \<noteq> Inl CloudError" by simp
  with Pair show ?thesis
    by (cases a)
       (auto simp: azure_step_def bindE_Inl_iff getitem_not_cloud
          set_AzureDetails_item_not_cloud)
qed

lemma azure_step_error:
  "fst (azure_step env self h w) = Inl e \<Longrightarrow>
     ''azure_api'' \<in> set (nb_options self) \<and> ''azuredata'' \<in> set (nb_providers self)
     \<and> host_is_azure h"
  by (auto simp: azure_step_def split: if_splits)

subsection \<open>The host, the alerts and the bookmarks\<close>

lemma fetch_host_fst:
  "nb_options self = nb_options self' \<Longrightarrow>
     fst (fetch_host env self hn w) = fst (fetch_host env self' hn w')"
  by (simp add: fetch_host_def Let_def)

lemma fetch_host_props:
  "trace_extends w (snd (fetch_host env self hn w))
   \<and> azure_cache (snd (fetch_host env self hn w)) = azure_cache w
   \<and> alerts_cache (snd (fetch_host env self hn w)) = alerts_cache w
   \<and> bookmarks_cache (snd (fetch_host env self hn w)) = bookmarks_cache w
   \<and> \<not> list_ex (raises_cloud_error env) (new_events w (snd (fetch_host env self hn w)))
   \<and> (''heartbeat'' \<in> set (nb_options self) \<longrightarrow>
        GetHeartbeat hn \<in> set (new_events w (snd (fetch_host env self hn w))))
   \<and> (''azure_net'' \<in> set (nb_options self) \<longrightarrow>
        (\<exists>h. GetAznetTopology h hn \<in> set (new_events w (snd (fetch_host env self hn w)))))"
  by (simp add: fetch_host_def Let_def)

lemma show_host_entity_props:
  "trace_extends w (show_host_entity h w)
   \<and> azure_cache (show_host_entity h w) = azure_cache w
   \<and> alerts_cache (show_host_entity h w) = alerts_cache w
   \<and> bookmarks_cache (show_host_entity h w) = bookmarks_cache w
   \<and> \<not> list_ex (raises_cloud_error env) (new_events w (show_host_entity h w))"
  by (simp add: show_host_entity_def)

lemma get_related_alerts_props:
  "trace_extends w (snd (get_related_alerts env ts hn w))
   \<and> azure_cache (snd (get_related_alerts env ts hn w)) = azure_cache w
   \<and> bookmarks_cache (snd (get_related_alerts env ts hn w)) = bookmarks_cache w
   \<and> \<not> list_ex (raises_cloud_error env) (new_events w (snd (get_related_alerts env ts hn w)))
   \<and> fst (get_related_alerts env ts hn w) =
       (case map_of (alerts_cache w) (ts, hn) of
          Some df \<Rightarrow> df
        | None \<Rightarrow> list_related_alerts env ts hn)
   \<and> (map_of (alerts_cache w) (ts, hn) = None \<longrightarrow>
        ListRelatedAlerts ts hn \<in> set (new_events w (snd (get_related_alerts env ts hn w))))"
  by (simp add: get_related_alerts_def get_related_alerts_body_def Let_def split: option.splits)

lemma show_alert_timeline_props:
  "trace_extends w (snd (show_alert_timeline env df w))
   \<and> azure_cache (snd (show_alert_timeline env df w)) = azure_cache w
   \<and> bookmarks_cache (snd (show_alert_timeline env df w)) = bookmarks_cache w
   \<and> \<not> list_ex (raises_cloud_error env) (new_events w (snd (show_alert_timeline env df w)))"
  by (simp add: show_alert_timeline_def Let_def)

lemma get_related_bookmarks_props:
  "trace_extends w (snd (get_related_bookmarks env ts hn w))
   \<and> azure_cache (snd (get_related_bookmarks env ts hn w)) = azure_cache w
   \<and> \<not> list_ex (raises_cloud_error env)
         (new_events w (snd (get_related_bookmarks env ts hn w)))
   \<and> fst (get_related_bookmarks env ts hn w) =
       (case map_of (bookmarks_cache w) (ts, hn) of
          Some df \<Rightarrow> df
        | None \<Rightarrow> list_bookmarks_for_entity env ts ([CHR 0x27] @ hn @ [CHR 0x27]))
   \<and> (map_of (bookmarks_cache w) (ts, hn) = None \<longrightarrow>
        ListBookmarksForEntity ts ([CHR 0x27] @ hn @ [CHR 0x27])
          \<in> set (new_events w (snd (get_related_bookmarks env ts hn w))))"
  by (simp add: get_related_bookmarks_def get_related_bookmarks_body_def Let_def
      split: option.splits)

lemma fetch_alerts_requested:
  assumes "''alerts'' \<in> set (nb_options self)"
      and "get_related_alerts env ts hn w = (df, w1)"
  shows "fetch_alerts env self ts hn r w =
     (if df_len df = 0 then (r\<lparr>related_alerts := Some df\<rparr>, w1)
      else if df_len df = 1 then
        (r\<lparr>alert_timeline := None, related_alerts := Some df\<rparr>,
         emit (NbMarkdown ''A single alert cannot be plotted on a timeline.'' None)
           (emit (SetText ''show_alert_timeline'') w1))
      else
        (r\<lparr>alert_timeline :=
             display_timeline env df ''Related Alerts'' [''AlertName'', ''TimeGenerated''] 200,
           related_alerts := Some df\<rparr>,
         emit (DisplayTimeline df ''Related Alerts'' [''AlertName'', ''TimeGenerated''] 200)
           (emit (SetText ''show_alert_timeline'') w1)))"
  using assms by (simp add: fetch_alerts_def show_alert_timeline_def Let_def)

lemma fetch_alerts_not_requested:
  "''alerts'' \<notin> set (nb_options self) \<Longrightarrow> fetch_alerts env self ts hn r w = (r, w)"
  by (simp add: fetch_alerts_def)

lemma fetch_alerts_props:
  "trace_extends w (snd (fetch_alerts env self ts hn r w))
   \<and> azure_cache (snd (fetch_alerts env self ts hn r w)) = azure_cache w
   \<and> bookmarks_cache (snd (fetch_alerts env self ts hn r w)) = bookmarks_cache w
   \<and> \<not> list_ex (raises_cloud_error env) (new_events w (snd (fetch_alerts env self ts hn r w)))
   \<and> host_entity (fst (fetch_alerts env self ts hn r w)) = host_entity r
   \<and> (''alerts'' \<in> set (nb_options self) \<longrightarrow>
        related_alerts (fst (fetch_alerts env self ts hn r w)) =
          Some (case map_of (alerts_cache w) (ts, hn) of
                  Some df \<Rightarrow> df
                | None \<Rightarrow> list_related_alerts env ts hn)
        \<and> (map_of (alerts_cache w) (ts, hn) = None \<longrightarrow>
             ListRelatedAlerts ts hn \<in> set (new_events w (snd (fetch_alerts env self ts hn r w)))))"
proof (cases "''alerts'' \<in> set (nb_options self)")
  case False
  then show ?thesis by (simp add: fetch_alerts_def)
next
  case True
  define d0 where "d0 = (case map_of (alerts_cache w) (ts, hn) of
                           Some df \<Rightarrow> df
                         | None \<Rightarrow> list_related_alerts env ts hn)"
  obtain df w1 where g: "get_related_alerts env ts hn w = (df, w1)"
    by (cases "get_related_alerts env ts hn w")
  from get_related_alerts_props[of w env ts hn] g
  have p1: "trace_extends w w1" "azure_cache w1 = azure_cache w"
    "bookmarks_cache w1 = bookmarks_cache w"
    "\<not> list_ex (raises_cloud_error env) (new_events w w1)"
    "df = d0"
    "map_of (alerts_cache w) (ts, hn) = None \<longrightarrow> ListRelatedAlerts ts hn \<in> set (new_events w w1)"
    by (simp_all add: d0_def)
  show ?thesis
  proof (cases "df_len df > 0")
    case False
    with True g p1 show ?thesis by (simp add: fetch_alerts_def d0_def[symmetric])
  next
    case len: True
    obtain fig w2 where t: "show_alert_timeline env df w1 = (fig, w2)"
      by (cases "show_alert_timeline env df w1")
    from show_alert_timeline_props[of w1 env df] t
    have p2: "trace_extends w1 w2" "azure_cache w2 = azure_cache w1"
      "bookmarks_cache w2 = bookmarks_cache w1"
      "\<not> list_ex (raises_cloud_error env) (new_events w1 w2)"
      by simp_all
    from trace_extends_trans[OF p1(1) p2(1)]
    have p3: "trace_extends w w2" "new_events w w2 = new_events w w1 @ new_events w1 w2"
      by simp_all
    from True g len t p1 p2 p3 show ?thesis
      by (simp add: fetch_alerts_def d0_def[symmetric])
  qed
qed

lemma fetch_bookmarks_cong:
  "nb_options self = nb_options self' \<Longrightarrow>
     fetch_bookmarks env self ts hn r w = fetch_bookmarks env self' ts hn r w"
  by (simp add: fetch_bookmarks_def)

lemma fetch_bookmarks_fields [simp]:
  "related_alerts (fst (fetch_bookmarks env self ts hn r w)) = related_alerts r"
  "alert_timeline (fst (fetch_bookmarks env self ts hn r w)) = alert_timeline r"
  "host_entity (fst (fetch_bookmarks env self ts hn r w)) = host_entity r"
  by (simp_all add: fetch_bookmarks_def split: prod.splits)

lemma fetch_bookmarks_props:
  "trace_extends w (snd (fetch_bookmarks env self ts hn r w))
   \<and> azure_cache (snd (fetch_bookmarks env self ts hn r w)) = azure_cache w
   \<and> \<not> list_ex (raises_cloud_error env)
         (new_events w (snd (fetch_bookmarks env self ts hn r w)))
   \<and> (''bookmarks'' \<in> set (nb_options self) \<longrightarrow>
        related_bookmarks (fst (fetch_bookmarks env self ts hn r w)) =
          Some (case map_of (bookmarks_cache w) (ts, hn) of
                  Some df \<Rightarrow> df
                | None \<Rightarrow> list_bookmarks_for_entity env ts ([CHR 0x27] @ hn @ [CHR 0x27]))
        \<and> (map_of (bookmarks_cache w) (ts, hn) = None \<longrightarrow>
             ListBookmarksForEntity ts ([CHR 0x27] @ hn @ [CHR 0x27])
               \<in> set (new_events w (snd (fetch_bookmarks env self ts hn r w)))))"
proof (cases "''bookmarks'' \<in> set (nb_options self)")
  case False
  then show ?thesis by (simp add: fetch_bookmarks_def)
next
  case True
  obtain df w1 where g: "get_related_bookmarks env ts hn w = (df, w1)"
    by (cases "get_related_bookmarks env ts hn w")
  from get_related_bookmarks_props[of w env ts hn] g True show ?thesis
    by (simp add: fetch_bookmarks_def)
qed

subsection \<open>The run once the host name is settled\<close>

lemma run_resolved_self:
  "nb_options (fst (snd (run_resolved env self ts hn r0 w))) = nb_options self
   \<and> nb_providers (fst (snd (run_resolved env self ts hn r0 w))) = nb_providers self"
  by (simp add: run_resolved_def Let_def split: prod.splits sum.splits)

lemma run_resolved_props:
  fixes env self ts hn r0 w
  defines "R \<equiv> run_resolved env self ts hn r0 w"
  shows "trace_extends w (snd (snd R))
   \<and> (''heartbeat'' \<in> set (nb_options self) \<longrightarrow>
        GetHeartbeat hn \<in> set (new_events w (snd (snd R))))
   \<and> (''azure_net'' \<in> set (nb_options self) \<longrightarrow>
        (\<exists>h. GetAznetTopology h hn \<in> set (new_events w (snd (snd R)))))
   \<and> (list_ex (raises_cloud_error env) (new_events w (snd (snd R))) \<longrightarrow>
        (\<exists>r. fst R = Inr r \<and> host_entity r = Some (fst (fetch_host env self hn w)))
        \<and> ''azure_api'' \<in> set (nb_options self) \<and> ''azuredata'' \<in> set (nb_providers self))
   \<and> (\<forall>r. fst R = Inr r \<longrightarrow>
        host_entity r \<noteq> None
        \<and> nb_last_result (fst (snd R)) = Some r
        \<and> (''alerts'' \<in> set (nb_options self) \<longrightarrow>
             related_alerts r =
               Some (case map_of (alerts_cache w) (ts, hn) of
                       Some df \<Rightarrow> df
                     | None \<Rightarrow> list_related_alerts env ts hn)
             \<and> (map_of (alerts_cache w) (ts, hn) = None \<longrightarrow>
                  ListRelatedAlerts ts hn \<in> set (new_events w (snd (snd R)))))
        \<and> (''bookmarks'' \<in> set (nb_options self) \<longrightarrow>
             related_bookmarks r =
               Some (case map_of (bookmarks_cache w) (ts, hn) of
                       Some df \<Rightarrow> df
                     | None \<Rightarrow>
                         list_bookmarks_for_entity env ts ([CHR 0x27] @ hn @ [CHR 0x27]))
             \<and> (map_of (bookmarks_cache w) (ts, hn) = None \<longrightarrow>
                  ListBookmarksForEntity ts ([CHR 0x27] @ hn @ [CHR 0x27])
                    \<in> set (new_events w (snd (snd R))))))
   \<and> (\<forall>e. fst R = Inl e \<longrightarrow>
        e \<noteq> CloudError
        \<and> ''azure_api'' \<in> set (nb_options self) \<and> ''azuredata'' \<in> set (nb_providers self))"
proof -
  obtain h w1 where fh: "fetch_host env self hn w = (h, w1)"
    by (cases "fetch_host env self hn w")
  from fetch_host_props[of w env self hn] fh
  have p1: "trace_extends w w1" "alerts_cache w1 = alerts_cache w"
    "bookmarks_cache w1 = bookmarks_cache w"
    "\<not> list_ex (raises_cloud_error env) (new_events w w1)"
    "''heartbeat'' \<in> set (nb_options self) \<longrightarrow> GetHeartbeat hn \<in> set (new_events w w1)"
    "''azure_net'' \<in> set (nb_options self) \<longrightarrow> (\<exists>h. GetAznetTopology h hn \<in> set (new_events w w1))"
    by simp_all
  obtain a w2 where az: "azure_step env self h w1 = (a, w2)"
    by (cases "azure_step env self h w1")
  from azure_step_props[of w1 env self h] az
  have p2: "trace_extends w1 w2" "alerts_cache w2 = alerts_cache w1"
    "bookmarks_cache w2 = bookmarks_cache w1"
    "list_ex (raises_cloud_error env) (new_events w1 w2) \<longrightarrow> a = Inr h
       \<and> ''azure_api'' \<in> set (nb_options self) \<and> ''azuredata'' \<in> set (nb_providers self)"
    by simp_all
  from trace_extends_trans[OF p1(1) p2(1)]
  have q2: "trace_extends w w2" "new_events w w2 = new_events w w1 @ new_events w1 w2"
    by simp_all
  show ?thesis
  proof (cases a)
    case (Inl e)
    with fh az have R: "R = (Inl e, self, w2)" by (simp add: R_def run_resolved_def)
    from azure_step_error[of env self h w1 e] az Inl
    have azopt: "''azure_api'' \<in> set (nb_options self) \<and> ''azuredata'' \<in> set (nb_providers self)"
      by simp
    have nocloud: "\<not> list_ex (raises_cloud_error env) (new_events w w2)"
      using p1(4) p2(4) Inl unfolding q2(2) by (auto simp: list_ex_iff)
    have notcloud: "e \<noteq> CloudError"
      using azure_step_not_cloud[of env self h w1] az Inl by auto
    have c1: "trace_extends w (snd (snd R))" unfolding R using q2(1) by simp
    have c2: "''heartbeat'' \<in> set (nb_options self) \<longrightarrow>
        GetHeartbeat hn \<in> set (new_events w (snd (snd R)))"
      unfolding R using p1(5) q2(2) by simp
    have c3: "''azure_net'' \<in> set (nb_options self) \<longrightarrow>
        (\<exists>h. GetAznetTopology h hn \<in> set (new_events w (snd (snd R))))"
      unfolding R using p1(6) q2(2) by auto
    have c4: "\<not> list_ex (raises_cloud_error env) (new_events w (snd (snd R)))"
      unfolding R using nocloud by simp
    have c5: "\<And>r. fst R \<noteq> Inr r" unfolding R by simp
    have c6: "\<forall>e. fst R = Inl e \<longrightarrow>
        e \<noteq> CloudError
        \<and> ''azure_api'' \<in> set (nb_options self) \<and> ''azuredata'' \<in> set (nb_providers self)"
      unfolding R using azopt notcloud by simp
    from c1 c2 c3 c4 c5 c6 show ?thesis by blast
  next
    case (Inr h')
    define r1 where "r1 = r0\<lparr>host_entity := Some h'\<rparr>"
    define w3 where "w3 = (if \<not> nb_silent self then show_host_entity h' w2 else w2)"
    have p3: "trace_extends w2 w3" "alerts_cache w3 = alerts_cache w2"
      "bookmarks_cache w3 = bookmarks_cache w2"
      "\<not> list_ex (raises_cloud_error env) (new_events w2 w3)"
      using show_host_entity_props[of w2 h' env] by (simp_all add: w3_def)
    from trace_extends_trans[OF q2(1) p3(1)]
    have q3: "trace_extends w w3" "new_events w w3 = new_events w w2 @ new_events w2 w3"
      by simp_all
    obtain r2 w4 where fa: "fetch_alerts env self ts hn r1 w3 = (r2, w4)"
      by (cases "fetch_alerts env self ts hn r1 w3")
    from fetch_alerts_props[of w3 env self ts hn r1] fa
    have p4: "trace_extends w3 w4" "bookmarks_cache w4 = bookmarks_cache w3"
      "\<not> list_ex (raises_cloud_error env) (new_events w3 w4)"
      "host_entity r2 = host_entity r1"
      "''alerts'' \<in> set (nb_options self) \<longrightarrow>
         related_alerts r2 =
           Some (case map_of (alerts_cache w3) (ts, hn) of
                   Some df \<Rightarrow> df
                 | None \<Rightarrow> list_related_alerts env ts hn)
         \<and> (map_of (alerts_cache w3) (ts, hn) = None \<longrightarrow>
              ListRelatedAlerts ts hn \<in> set (new_events w3 w4))"
      by simp_all
    from trace_extends_trans[OF q3(1) p4(1)]
    have q4: "trace_extends w w4" "new_events w w4 = new_events w w3 @ new_events w3 w4"
      by simp_all
    obtain r3 w5 where fb: "fetch_bookmarks env self ts hn r2 w4 = (r3, w5)"
      by (cases "fetch_bookmarks env self ts hn r2 w4")
    from fetch_bookmarks_props[of w4 env self ts hn r2] fb
    have p5: "trace_extends w4 w5"
      "\<not> list_ex (raises_cloud_error env) (new_events w4 w5)"
      "''bookmarks'' \<in> set (nb_options self) \<longrightarrow>
         related_bookmarks r3 =
           Some (case map_of (bookmarks_cache w4) (ts, hn) of
                   Some df \<Rightarrow> df
                 | None \<Rightarrow>
                     list_bookmarks_for_entity env ts ([CHR 0x27] @ hn @ [CHR 0x27]))
         \<and> (map_of (bookmarks_cache w4) (ts, hn) = None \<longrightarrow>
              ListBookmarksForEntity ts ([CHR 0x27] @ hn @ [CHR 0x27]) \<in> set (new_events w4 w5))"
      by simp_all
    from fetch_bookmarks_fields[of env self ts hn r2 w4] fb
    have p6: "host_entity r3 = host_entity r2" "related_alerts r3 = related_alerts r2"
      by simp_all
    from trace_extends_trans[OF q4(1) p5(1)]
    have q5: "trace_extends w w5" "new_events w w5 = new_events w w4 @ new_events w4 w5"
      by simp_all
    from fh az Inr fa fb
    have R: "R = (Inr r3, self\<lparr>nb_last_result := Some r3\<rparr>, w5)"
      by (simp add: R_def run_resolved_def Let_def r1_def w3_def)
    have ac: "alerts_cache w3 = alerts_cache w" using p1(2) p2(2) p3(2) by simp
    have bc: "bookmarks_cache w4 = bookmarks_cache w" using p1(3) p2(3) p3(3) p4(2) by simp
    have ev: "set (new_events w w5) =
        set (new_events w w1) \<union> set (new_events w1 w2) \<union> set (new_events w2 w3)
          \<union> set (new_events w3 w4) \<union> set (new_events w4 w5)"
      unfolding q5(2) q4(2) q3(2) q2(2) by (simp add: Un_assoc)
    have hent: "host_entity r3 = Some h'" using p4(4) p6(1) by (simp add: r1_def)
    have fhe: "fst (fetch_host env self hn w) = h" using fh by simp
    have c1: "trace_extends w (snd (snd R))" unfolding R using q5(1) by simp
    have c2: "''heartbeat'' \<in> set (nb_options self) \<longrightarrow>
        GetHeartbeat hn \<in> set (new_events w (snd (snd R)))"
      unfolding R snd_conv ev using p1(5) by blast
    have c3: "''azure_net'' \<in> set (nb_options self) \<longrightarrow>
        (\<exists>h. GetAznetTopology h hn \<in> set (new_events w (snd (snd R))))"
      unfolding R snd_conv ev using p1(6) by blast
    have cloud: "list_ex (raises_cloud_error env) (new_events w w5) \<Longrightarrow> h' = h
        \<and> ''azure_api'' \<in> set (nb_options self) \<and> ''azuredata'' \<in> set (nb_providers self)"
      using p1(4) p2(4) p3(4) p4(3) p5(2) Inr unfolding list_ex_iff ev by blast
    have c4: "list_ex (raises_cloud_error env) (new_events w (snd (snd R))) \<longrightarrow>
        (\<exists>r. fst R = Inr r \<and> host_entity r = Some (fst (fetch_host env self hn w)))
        \<and> ''azure_api'' \<in> set (nb_options self) \<and> ''azuredata'' \<in> set (nb_providers self)"
      unfolding R fst_conv snd_conv fhe using cloud hent by blast
    have c5a: "''alerts'' \<in> set (nb_options self) \<longrightarrow>
             related_alerts r3 =
               Some (case map_of (alerts_cache w) (ts, hn) of
                       Some df \<Rightarrow> df
                     | None \<Rightarrow> list_related_alerts env ts hn)
             \<and> (map_of (alerts_cache w) (ts, hn) = None \<longrightarrow>
                  ListRelatedAlerts ts hn \<in> set (new_events w (snd (snd R))))"
      unfolding R snd_conv ev using p4(5) p6(2) ac by auto
    have c5b: "''bookmarks'' \<in> set (nb_options self) \<longrightarrow>
             related_bookmarks r3 =
               Some (case map_of (bookmarks_cache w) (ts, hn) of
                       Some df \<Rightarrow> df
                     | None \<Rightarrow>
                         list_bookmarks_for_entity env ts ([CHR 0x27] @ hn @ [CHR 0x27]))
             \<and> (map_of (bookmarks_cache w) (ts, hn) = None \<longrightarrow>
                  ListBookmarksForEntity ts ([CHR 0x27] @ hn @ [CHR 0x27])
                    \<in> set (new_events w (snd (snd R))))"
      unfolding R snd_conv ev using p5(3) bc by auto
    have c5: "\<And>r. fst R = Inr r \<Longrightarrow> r = r3" unfolding R by simp
    have c6: "\<And>e. fst R \<noteq> Inl e" unfolding R by simp
    have c7: "host_entity r3 \<noteq> None" using hent by simp
    have c8: "nb_last_result (fst (snd R)) = Some r3" unfolding R by simp
    from c1 c2 c3 c4 c5 c5a c5b c6 c7 c8 show ?thesis by blast
  qed
qed

lemma run_top_cases:
  "(\<exists>e. HostSummary_run env args self w =
          (Inl e, snd (Notebooklet_run env args self), emit (SetText ''run'') w))
   \<or> (\<exists>v ts self1. Notebooklet_run env args self = (Inr (), self1)
         \<and> arg_value args = Some v \<and> v \<noteq> [] \<and> arg_timespan args = Some ts
         \<and> HostSummary_run env args self w =
             run_validated env self1 v ts (emit (SetText ''run'') w))"
  by (auto simp: HostSummary_run_def Let_def split: prod.splits sum.splits option.splits)

lemma run_validated_cases:
  fixes env self1 v ts w
  defines "self2 \<equiv> self1\<lparr>nb_timespan := Some ts\<rparr>"
  defines "r0 \<equiv> HostSummaryResult_init (Some (nb_description self1)) (Some ts)"
  defines "w1 \<equiv> emit (VerifyHostName v ts) w"
  shows "(names_truthy (host_names (verify_host_name env v ts))
           \<and> run_validated env self1 v ts w =
               (Inr r0, self2\<lparr>nb_last_result := Some r0\<rparr>, emit (Md (ambiguous_message v)) w1))
       \<or> (\<not> names_truthy (host_names (verify_host_name env v ts))
           \<and> host_name (verify_host_name env v ts) \<in> {None, Some []}
           \<and> run_validated env self1 v ts w =
               run_resolved env self2 ts v r0
                 (emit (NbMarkdown (unresolved_message v) (Some ''orange'')) w1))
       \<or> (\<exists>n. \<not> names_truthy (host_names (verify_host_name env v ts))
           \<and> host_name (verify_host_name env v ts) = Some n \<and> n \<noteq> []
           \<and> run_validated env self1 v ts w = run_resolved env self2 ts n r0 w1)"
  by (auto simp: run_validated_def Let_def self2_def r0_def w1_def split: option.splits)

subsection \<open>Missing parameters\<close>

text \<open>
  Claim C1, as amended. When \<open>value\<close> is \<open>None\<close> or empty, or \<open>timespan\<close> is \<open>None\<close>, the
  run raises: it never returns a result. The inherited \<open>run\<close> is called before the two
  checks. When it returns normally, the exception is \<open>MsticnbMissingParameterError\<close>,
  for \<open>value\<close> first and for \<open>timespan\<close> otherwise; when it raises, its exception is the
  one the run fails with. In both cases nothing is fetched: the only event of the run
  is the display of its documented text, the trace has no new fetch and the caches are
  unchanged.
\<close>

theorem C1_missing_parameter:
  assumes "arg_value args = None \<or> arg_value args = Some [] \<or> arg_timespan args = None"
  shows "(\<exists>e. fst (HostSummary_run env args self w) = Inl e)
       \<and> (fst (Notebooklet_run env args self) = Inr () \<longrightarrow>
            fst (HostSummary_run env args self w) =
              Inl (MsticnbMissingParameterError
                    (if arg_value args = None \<or> arg_value args = Some [] then ''value''
                     else ''timespan.'')))
       \<and> (\<forall>e. fst (Notebooklet_run env args self) = Inl e \<longrightarrow>
            fst (HostSummary_run env args self w) = Inl e)
       \<and> snd (snd (HostSummary_run env args self w)) = emit (SetText ''run'') w
       \<and> filter is_fetch (trace (snd (snd (HostSummary_run env args self w))))
           = filter is_fetch (trace w)"
  using assms
  by (auto simp: HostSummary_run_def Let_def split: prod.splits sum.splits option.splits)

theorem C1_missing_parameter_witness:
  "fst (HostSummary_run example_env (example_args None (Some example_timespan))
          (example_nb ''Host summary'') empty_world)
     = Inl (MsticnbMissingParameterError ''value'')
   \<and> fst (HostSummary_run example_env (example_args (Some ''vm1'') None)
          (example_nb ''Host summary'') empty_world)
     = Inl (MsticnbMissingParameterError ''timespan.'')
   \<and> trace (snd (snd (HostSummary_run example_env (example_args (Some ''vm1'') None)
          (example_nb ''Host summary'') empty_world)))
     = [SetText ''run'']"
  using
    C1_missing_parameter[where args = "example_args None (Some example_timespan)"
      and env = example_env and self = "example_nb ''Host summary''" and w = empty_world]
    C1_missing_parameter[where args = "example_args (Some ''vm1'') None"
      and env = example_env and self = "example_nb ''Host summary''" and w = empty_world]
  by (simp add: example_defs)

text \<open>
  The claim as stated fails: in this run \<open>value\<close> is \<open>None\<close> and the inherited \<open>run\<close>
  raises. The run fails with the exception of the inherited \<open>run\<close>, not with
  \<open>MsticnbMissingParameterError\<close>.
\<close>

theorem C1_inherited_run_raises_first:
  "arg_value (example_args None (Some example_timespan)) = None
   \<and> HostSummary_run raising_env (example_args None (Some example_timespan))
        (example_nb ''Host summary'') empty_world
     = (Inl (OtherError ''Notebooklet.run''),
        \<lparr>nb_options = [], nb_silent = False, nb_timespan = None, nb_last_result = None,
          nb_providers = [''azuredata''], nb_description = ''Host summary''\<rparr>,
        \<lparr>trace = [SetText ''run''], azure_cache = [], alerts_cache = [],
          bookmarks_cache = []\<rparr>)"
  by (simp add: example_defs HostSummary_run_def emit_def)

subsection \<open>Ambiguous host names\<close>

text \<open>
  Claim C2, as amended. When the verification lists candidate host names, the run
  returns normally with the result as it was constructed: the description of the
  notebooklet metadata, the time span, and \<open>host_entity\<close>, \<open>related_alerts\<close>,
  \<open>alert_timeline\<close> and \<open>related_bookmarks\<close> unset. The explanatory message, which is
  never empty, is written to the notebook output with \<open>md\<close>; it is not stored in the
  result. After the verification nothing is fetched: the events of the run are the
  documented text, the verification and the message.
\<close>

theorem C2_ambiguous_host_partial_result:
  assumes "Notebooklet_run env args self = (Inr (), self1)"
      and "arg_value args = Some v" and "v \<noteq> []"
      and "arg_timespan args = Some ts"
      and "names_truthy (host_names (verify_host_name env v ts))"
  shows "\<exists>r self'.
           HostSummary_run env args self w =
             (Inr r, self',
              emit (Md (ambiguous_message v))
                (emit (VerifyHostName v ts) (emit (SetText ''run'') w)))
         \<and> r = HostSummaryResult_init (Some (nb_description self1)) (Some ts)
         \<and> host_entity r = None \<and> related_alerts r = None
         \<and> alert_timeline r = None \<and> related_bookmarks r = None
         \<and> nb_last_result self' = Some r
         \<and> ambiguous_message v \<noteq> []"
  using assms
  by (simp add: HostSummary_run_def run_validated_def Let_def ambiguous_message_def)

theorem C2_ambiguous_host_partial_result_witness:
  "names_truthy (host_names (verify_host_name example_env ''web'' example_timespan))
   \<and> fst (HostSummary_run example_env (example_args (Some ''web'') (Some example_timespan))
          (example_nb ''Host summary'') empty_world)
       = Inr (HostSummaryResult_init (Some ''Host summary'') (Some example_timespan))
   \<and> trace (snd (snd (HostSummary_run example_env
          (example_args (Some ''web'') (Some example_timespan))
          (example_nb ''Host summary'') empty_world)))
       = [SetText ''run'', VerifyHostName ''web'' example_timespan,
          Md (ambiguous_message ''web'')]"
proof -
  have base: "Notebooklet_run example_env (example_args (Some ''web'') (Some example_timespan))
                (example_nb ''Host summary'')
              = (Inr (), (example_nb ''Host summary'')\<lparr>nb_options := all_options\<rparr>)"
    by (simp add: example_env_def example_args_def)
  have v: "arg_value (example_args (Some ''web'') (Some example_timespan)) = Some ''web''"
    and ts: "arg_timespan (example_args (Some ''web'') (Some example_timespan))
               = Some example_timespan"
    by (simp_all add: example_args_def)
  have amb: "names_truthy (host_names (verify_host_name example_env ''web'' example_timespan))"
    by (simp add: example_env_def names_truthy_def)
  from C2_ambiguous_host_partial_result[OF base v _ ts amb, of empty_world] amb
  show ?thesis by (auto simp: example_nb_def empty_world_def)
qed

text \<open>
  The claim as stated fails: in this run two candidate names are listed and the
  metadata has an empty description. The result returned holds no text at all; the
  message is on the notebook output only.
\<close>

theorem C2_result_carries_no_message:
  "HostSummary_run example_env (example_args (Some ''web'') (Some example_timespan))
      (example_nb []) empty_world
   = (Inr \<lparr>description = Some [], timespan = Some example_timespan, host_entity = None,
           related_alerts = None, alert_timeline = None, related_bookmarks = None\<rparr>,
      \<lparr>nb_options = all_options, nb_silent = False, nb_timespan = Some example_timespan,
        nb_last_result =
          Some \<lparr>description = Some [], timespan = Some example_timespan, host_entity = None,
                related_alerts = None, alert_timeline = None, related_bookmarks = None\<rparr>,
        nb_providers = [''azuredata''], nb_description = []\<rparr>,
      \<lparr>trace = [SetText ''run'', VerifyHostName ''web'' example_timespan,
                Md ''Could not obtain unique host name from web. Aborting.''],
        azure_cache = [], alerts_cache = [], bookmarks_cache = []\<rparr>)"
  by (simp add: example_defs run_defs ambiguous_message_def)

subsection \<open>A cloud error of the Azure API\<close>

lemma run_resolved_after:
  assumes ext: "trace_extends w wX"
      and quiet: "\<not> list_ex (raises_cloud_error env) (new_events w wX)"
      and cloud: "list_ex (raises_cloud_error env)
                    (new_events w (snd (snd (run_resolved env self ts hn r0 wX))))"
  shows "\<exists>r. fst (run_resolved env self ts hn r0 wX) = Inr r
           \<and> nb_last_result (fst (snd (run_resolved env self ts hn r0 wX))) = Some r
           \<and> host_entity r =
               Some (fst (fetch_host env (fst (snd (run_resolved env self ts hn r0 wX))) hn w))
           \<and> ''azure_api''
               \<in> set (nb_options (fst (snd (run_resolved env self ts hn r0 wX))))
           \<and> ''azuredata''
               \<in> set (nb_providers (fst (snd (run_resolved env self ts hn r0 wX))))"
proof -
  let ?R = "run_resolved env self ts hn r0 wX"
  note props = run_resolved_props[of wX env self ts hn r0]
  from props have e2: "trace_extends wX (snd (snd ?R))" by blast
  from trace_extends_trans[OF ext e2]
  have ev: "new_events w (snd (snd ?R)) = new_events w wX @ new_events wX (snd (snd ?R))"
    by simp
  from cloud quiet have c: "list_ex (raises_cloud_error env) (new_events wX (snd (snd ?R)))"
    unfolding ev by (auto simp: list_ex_iff)
  with props obtain r where r: "fst ?R = Inr r"
    "host_entity r = Some (fst (fetch_host env self hn wX))"
    "''azure_api'' \<in> set (nb_options self)" "''azuredata'' \<in> set (nb_providers self)"
    by blast
  from props r(1) have last: "nb_last_result (fst (snd ?R)) = Some r" by blast
  from run_resolved_self[of env self ts hn r0 wX]
  have s: "nb_options (fst (snd ?R)) = nb_options self"
    "nb_providers (fst (snd ?R)) = nb_providers self" by simp_all
  have "fst (fetch_host env self hn wX) = fst (fetch_host env (fst (snd ?R)) hn w)"
    by (rule fetch_host_fst) (simp add: s)
  with r s last show ?thesis by simp
qed

lemma run_cloud:
  assumes cloud: "list_ex (raises_cloud_error env)
                    (new_events w (snd (snd (HostSummary_run env args self w))))"
  shows "\<exists>r v ts hn.
           fst (HostSummary_run env args self w) = Inr r
         \<and> nb_last_result (fst (snd (HostSummary_run env args self w))) = Some r
         \<and> arg_value args = Some v \<and> arg_timespan args = Some ts
         \<and> (hn = v \<or> host_name (verify_host_name env v ts) = Some hn)
         \<and> host_entity r =
             Some (fst (fetch_host env (fst (snd (HostSummary_run env args self w))) hn w))
         \<and> ''azure_api'' \<in> set (nb_options (fst (snd (HostSummary_run env args self w))))
         \<and> ''azuredata'' \<in> set (nb_providers (fst (snd (HostSummary_run env args self w))))"
proof -
  let ?w0 = "emit (SetText ''run'') w"
  from run_top_cases[of env args self w] show ?thesis
  proof (elim disjE exE conjE)
    fix e
    assume "HostSummary_run env args self w =
              (Inl e, snd (Notebooklet_run env args self), ?w0)"
    with cloud show ?thesis by simp
  next
    fix v ts self1
    assume v: "arg_value args = Some v" and ts: "arg_timespan args = Some ts"
      and run: "HostSummary_run env args self w = run_validated env self1 v ts ?w0"
    let ?w1 = "emit (VerifyHostName v ts) ?w0"
    let ?self2 = "self1\<lparr>nb_timespan := Some ts\<rparr>"
    let ?r0 = "HostSummaryResult_init (Some (nb_description self1)) (Some ts)"
    from run_validated_cases[of env v ts self1 ?w0] show ?thesis
    proof (elim disjE exE conjE)
      assume "run_validated env self1 v ts ?w0 =
                (Inr ?r0, ?self2\<lparr>nb_last_result := Some ?r0\<rparr>,
                 emit (Md (ambiguous_message v)) ?w1)"
      with cloud run show ?thesis by simp
    next
      let ?wX = "emit (NbMarkdown (unresolved_message v) (Some ''orange'')) ?w1"
      assume rv: "run_validated env self1 v ts ?w0 = run_resolved env ?self2 ts v ?r0 ?wX"
      have "trace_extends w ?wX" "\<not> list_ex (raises_cloud_error env) (new_events w ?wX)"
        by simp_all
      from run_resolved_after[OF this, of ?self2 ts v ?r0] cloud run rv v ts
      show ?thesis by auto
    next
      fix n
      assume n: "host_name (verify_host_name env v ts) = Some n"
        and rv: "run_validated env self1 v ts ?w0 = run_resolved env ?self2 ts n ?r0 ?w1"
      have "trace_extends w ?w1" "\<not> list_ex (raises_cloud_error env) (new_events w ?w1)"
        by simp_all
      from run_resolved_after[OF this, of ?self2 ts n ?r0] cloud run rv v ts n
      show ?thesis by auto
    qed
  qed
qed

text \<open>
  Claim C3. When a call of the Azure API made by this run raises \<open>CloudError\<close>, the
  exception is caught: the run returns a result, which is also stored as the last
  result. The \<open>azure_api\<close> option was requested and the \<open>azuredata\<close> provider is loaded.
  The host entity of the result is exactly the entity that the heartbeat and topology
  helpers returned for the host name \<open>hn\<close> of the run (the verified name, or the value):
  its \<open>AzureDetails\<close> got no \<open>ResourceDetails\<close> and no \<open>SubscriptionDetails\<close>.
\<close>

theorem C3_cloud_error_is_caught:
  assumes run: "HostSummary_run env args self w = (res, self', w')"
      and cloud: "list_ex (raises_cloud_error env) (new_events w w')"
  shows "\<exists>r v ts hn.
           res = Inr r
         \<and> nb_last_result self' = Some r
         \<and> arg_value args = Some v \<and> arg_timespan args = Some ts
         \<and> (hn = v \<or> host_name (verify_host_name env v ts) = Some hn)
         \<and> host_entity r = Some (fst (fetch_host env self' hn w))
         \<and> ''azure_api'' \<in> set (nb_options self')
         \<and> ''azuredata'' \<in> set (nb_providers self')"
  using run_cloud[of env w args self] run cloud by simp

lemma vm1_run:
  "fst (HostSummary_run example_env (example_args (Some ''vm1'') (Some example_timespan))
      (example_nb ''Host summary'') empty_world) =
   Inr \<lparr>description = Some ''Host summary'', timespan = Some example_timespan,
        host_entity = Some (example_host ''vm1''), related_alerts = Some two_alerts,
        alert_timeline = Some (Figure 1), related_bookmarks = Some no_bookmarks\<rparr>"
  by (simp add: example_defs run_defs)

lemma vm1_cloud:
  "list_ex (raises_cloud_error example_env)
     (new_events empty_world
        (snd (snd (HostSummary_run example_env
           (example_args (Some ''vm1'') (Some example_timespan))
           (example_nb ''Host summary'') empty_world))))"
  by (simp add: example_defs run_defs new_events_def)

theorem C3_cloud_error_is_caught_witness:
  "list_ex (raises_cloud_error example_env)
     (new_events empty_world
        (snd (snd (HostSummary_run example_env
           (example_args (Some ''vm1'') (Some example_timespan))
           (example_nb ''Host summary'') empty_world))))
   \<and> fst (HostSummary_run example_env (example_args (Some ''vm1'') (Some example_timespan))
        (example_nb ''Host summary'') empty_world) =
     Inr \<lparr>description = Some ''Host summary'', timespan = Some example_timespan,
          host_entity = Some (example_host ''vm1''), related_alerts = Some two_alerts,
          alert_timeline = Some (Figure 1), related_bookmarks = Some no_bookmarks\<rparr>
   \<and> get_AzureDetails (example_host ''vm1'') =
       Inr (PDict [(''SubscriptionId'', PStr ''sub-1''), (''ResourceId'', PStr ''res-1'')])"
proof -
  have details: "get_AzureDetails (example_host ''vm1'') =
       Inr (PDict [(''SubscriptionId'', PStr ''sub-1''), (''ResourceId'', PStr ''res-1'')])"
    by (simp add: get_AzureDetails_def example_host_def)
  have run: "HostSummary_run example_env (example_args (Some ''vm1'') (Some example_timespan))
               (example_nb ''Host summary'') empty_world =
             (fst (HostSummary_run example_env
                     (example_args (Some ''vm1'') (Some example_timespan))
                     (example_nb ''Host summary'') empty_world),
              fst (snd (HostSummary_run example_env
                     (example_args (Some ''vm1'') (Some example_timespan))
                     (example_nb ''Host summary'') empty_world)),
              snd (snd (HostSummary_run example_env
                     (example_args (Some ''vm1'') (Some example_timespan))
                     (example_nb ''Host summary'') empty_world)))"
    by simp
  from C3_cloud_error_is_caught[OF run vm1_cloud] vm1_cloud vm1_run details
  show ?thesis by simp
qed

subsection \<open>Unresolved host names\<close>


lemma ghost_run:
  "fst (HostSummary_run example_env (example_args (Some ''ghost'') (Some example_timespan))
      (example_nb ''Host summary'') empty_world) =
   Inr \<lparr>description = Some ''Host summary'', timespan = Some example_timespan,
        host_entity = Some (example_host ''ghost''), related_alerts = Some one_alert,
        alert_timeline = None, related_bookmarks = Some no_bookmarks\<rparr>"
  by (simp add: example_defs run_defs)




subsection \<open>The alert timeline\<close>

lemma run_resolved_alerts:
  assumes run: "run_resolved env self ts hn r0 wX = (Inr r, self', w')"
      and r0: "related_alerts r0 = None" "alert_timeline r0 = None"
  shows "host_entity r \<noteq> None
       \<and> nb_options self' = nb_options self
       \<and> (\<exists>w1 r1 r2 w3.
            trace_extends wX w1 \<and> alerts_cache w1 = alerts_cache wX
          \<and> related_alerts r1 = None \<and> alert_timeline r1 = None
          \<and> fetch_alerts env self ts hn r1 w1 = (r2, w3)
          \<and> fetch_bookmarks env self ts hn r2 w3 = (r, w'))"
proof -
  obtain h w1 where fh: "fetch_host env self hn wX = (h, w1)"
    by (cases "fetch_host env self hn wX")
  from fetch_host_props[of wX env self hn] fh
  have p1: "trace_extends wX w1" "alerts_cache w1 = alerts_cache wX"
    by simp_all
  obtain a w2 where az: "azure_step env self h w1 = (a, w2)"
    by (cases "azure_step env self h w1")
  from azure_step_props[of w1 env self h] az
  have p2: "trace_extends w1 w2" "alerts_cache w2 = alerts_cache w1"
    by simp_all
  from trace_extends_trans[OF p1(1) p2(1)] have q2: "trace_extends wX w2" by simp
  show ?thesis
  proof (cases a)
    case (Inl e)
    with run fh az show ?thesis by (simp add: run_resolved_def)
  next
    case (Inr h')
    define r1 where "r1 = r0\<lparr>host_entity := Some h'\<rparr>"
    define w3 where "w3 = (if \<not> nb_silent self then show_host_entity h' w2 else w2)"
    have p3: "trace_extends w2 w3" "alerts_cache w3 = alerts_cache w2"
      using show_host_entity_props[of w2 h' env] by (simp_all add: w3_def)
    from trace_extends_trans[OF q2 p3(1)] have q3: "trace_extends wX w3" by simp
    obtain r2 w4 where fa: "fetch_alerts env self ts hn r1 w3 = (r2, w4)"
      by (cases "fetch_alerts env self ts hn r1 w3")
    obtain r3 w5 where fb: "fetch_bookmarks env self ts hn r2 w4 = (r3, w5)"
      by (cases "fetch_bookmarks env self ts hn r2 w4")
    from run fh az Inr fa fb
    have res: "r = r3" "self' = self\<lparr>nb_last_result := Some r3\<rparr>" "w' = w5"
      by (auto simp: run_resolved_def Let_def r1_def w3_def)
    from fetch_alerts_props[of w3 env self ts hn r1] fa
    have h2: "host_entity r2 = host_entity r1" by simp
    from fetch_bookmarks_fields(3)[of env self ts hn r2 w4] fb
    have h3: "host_entity r3 = host_entity r2" by simp
    have c1: "host_entity r \<noteq> None" using h2 h3 res(1) by (simp add: r1_def)
    have c2: "nb_options self' = nb_options self" using res(2) by simp
    have c3: "alerts_cache w3 = alerts_cache wX" using p1(2) p2(2) p3(2) by simp
    have c4: "related_alerts r1 = None" "alert_timeline r1 = None"
      using r0 by (simp_all add: r1_def)
    have c5: "fetch_bookmarks env self ts hn r2 w4 = (r, w')" using fb res by simp
    from c1 c2 q3 c3 c4 fa c5 show ?thesis by blast
  qed
qed

lemma run_alerts_block:
  assumes run: "HostSummary_run env args self w = (Inr r, self', w')"
  shows "\<exists>v ts. arg_value args = Some v \<and> arg_timespan args = Some ts
       \<and> ((host_entity r = None \<and> related_alerts r = None \<and> alert_timeline r = None)
          \<or> (host_entity r \<noteq> None
             \<and> (\<exists>hn w1 r1 r2 w3.
                  (hn = v \<or> host_name (verify_host_name env v ts) = Some hn)
                \<and> trace_extends w w1 \<and> alerts_cache w1 = alerts_cache w
                \<and> related_alerts r1 = None \<and> alert_timeline r1 = None
                \<and> fetch_alerts env self' ts hn r1 w1 = (r2, w3)
                \<and> fetch_bookmarks env self' ts hn r2 w3 = (r, w'))))"
proof -
  let ?w0 = "emit (SetText ''run'') w"
  from run_top_cases[of env args self w] show ?thesis
  proof (elim disjE exE conjE)
    fix e
    assume "HostSummary_run env args self w =
              (Inl e, snd (Notebooklet_run env args self), ?w0)"
    with run show ?thesis by simp
  next
    fix v ts self1
    assume v: "arg_value args = Some v" and ts: "arg_timespan args = Some ts"
      and top: "HostSummary_run env args self w = run_validated env self1 v ts ?w0"
    let ?w1 = "emit (VerifyHostName v ts) ?w0"
    let ?self2 = "self1\<lparr>nb_timespan := Some ts\<rparr>"
    let ?r0 = "HostSummaryResult_init (Some (nb_description self1)) (Some ts)"
    have r0: "related_alerts ?r0 = None" "alert_timeline ?r0 = None" by simp_all
    have resolved: "\<exists>hn w1 r1 r2 w3.
                  (hn = v \<or> host_name (verify_host_name env v ts) = Some hn)
                \<and> trace_extends w w1 \<and> alerts_cache w1 = alerts_cache w
                \<and> related_alerts r1 = None \<and> alert_timeline r1 = None
                \<and> fetch_alerts env self' ts hn r1 w1 = (r2, w3)
                \<and> fetch_bookmarks env self' ts hn r2 w3 = (r, w')"
      and entity: "host_entity r \<noteq> None"
      if rr: "run_resolved env ?self2 ts hn ?r0 wX = (Inr r, self', w')"
        and hn: "hn = v \<or> host_name (verify_host_name env v ts) = Some hn"
        and wX: "trace_extends w wX" "alerts_cache wX = alerts_cache w"
      for hn wX
    proof -
      from run_resolved_alerts[OF rr r0]
      obtain w1 r1 r2 w3 where a: "host_entity r \<noteq> None"
        "nb_options self' = nb_options ?self2"
        "trace_extends wX w1" "alerts_cache w1 = alerts_cache wX"
        "related_alerts r1 = None" "alert_timeline r1 = None"
        "fetch_alerts env ?self2 ts hn r1 w1 = (r2, w3)"
        "fetch_bookmarks env ?self2 ts hn r2 w3 = (r, w')"
        by blast
      from trace_extends_trans[OF wX(1) a(3)] have e: "trace_extends w w1" by simp
      have c: "alerts_cache w1 = alerts_cache w" using a(4) wX(2) by simp
      have fa: "fetch_alerts env self' ts hn r1 w1 = (r2, w3)"
        using a(7) a(2) by (simp add: fetch_alerts_def)
      have fb: "fetch_bookmarks env self' ts hn r2 w3 = (r, w')"
        using a(8) fetch_bookmarks_cong[OF a(2), of env ts hn r2 w3] by simp
      from hn e c a(5,6) fa fb
      show "\<exists>hn w1 r1 r2 w3.
                  (hn = v \<or> host_name (verify_host_name env v ts) = Some hn)
                \<and> trace_extends w w1 \<and> alerts_cache w1 = alerts_cache w
                \<and> related_alerts r1 = None \<and> alert_timeline r1 = None
                \<and> fetch_alerts env self' ts hn r1 w1 = (r2, w3)
                \<and> fetch_bookmarks env self' ts hn r2 w3 = (r, w')"
        by blast
      from a(1) show "host_entity r \<noteq> None" .
    qed
    from run_validated_cases[of env v ts self1 ?w0] show ?thesis
    proof (elim disjE exE conjE)
      assume "run_validated env self1 v ts ?w0 =
                (Inr ?r0, ?self2\<lparr>nb_last_result := Some ?r0\<rparr>,
                 emit (Md (ambiguous_message v)) ?w1)"
      with run top have "r = ?r0" by simp
      with v ts show ?thesis by simp
    next
      let ?wX = "emit (NbMarkdown (unresolved_message v) (Some ''orange'')) ?w1"
      assume rv: "run_validated env self1 v ts ?w0 = run_resolved env ?self2 ts v ?r0 ?wX"
      with run top have rr: "run_resolved env ?self2 ts v ?r0 ?wX = (Inr r, self', w')"
        by simp
      have wX: "trace_extends w ?wX" "alerts_cache ?wX = alerts_cache w" by simp_all
      have hn: "v = v \<or> host_name (verify_host_name env v ts) = Some v" by simp
      from resolved[OF rr hn wX] entity[OF rr hn wX] v ts show ?thesis by blast
    next
      fix n
      assume n: "host_name (verify_host_name env v ts) = Some n"
        and rv: "run_validated env self1 v ts ?w0 = run_resolved env ?self2 ts n ?r0 ?w1"
      with run top have rr: "run_resolved env ?self2 ts n ?r0 ?w1 = (Inr r, self', w')"
        by simp
      have wX: "trace_extends w ?w1" "alerts_cache ?w1 = alerts_cache w" by simp_all
      from n have hn: "n = v \<or> host_name (verify_host_name env v ts) = Some n" by simp
      from resolved[OF rr hn wX] entity[OF rr hn wX] v ts show ?thesis by blast
    qed
  qed
qed

text \<open>
  Claim C10. Take a run that returns a result \<open>r\<close>. When the run was cut short by an
  ambiguous host name (\<open>host_entity\<close> unset) or the \<open>alerts\<close> option was not requested,
  \<open>related_alerts\<close> and \<open>alert_timeline\<close> are both unset. Otherwise the related alerts
  are fetched once in the run, for its time span and host name, in a state \<open>w1\<close> of the
  run whose alert cache is that of the start; \<open>related_alerts\<close> holds the table \<open>df\<close>
  that this fetch returned, and the rest of the run is the bookmark block started in
  the state \<open>w3\<close> that the alert block leaves:

  \<^item> with no row, \<open>alert_timeline\<close> is unset and the timeline helper is not called: \<open>w3\<close>
    is the state right after the fetch;
  \<^item> with one row, the helper is called, says that a single alert cannot be plotted and
    returns \<open>None\<close>: \<open>alert_timeline\<close> is unset while \<open>related_alerts\<close> holds the one-row
    table;
  \<^item> with more than one row, the helper displays the timeline and \<open>alert_timeline\<close> is
    what \<open>display_timeline\<close> returned.

  So \<open>alert_timeline\<close> is set only when the fetch returned more than one alert.
\<close>

theorem C10_alert_timeline_needs_two_alerts:
  assumes run: "HostSummary_run env args self w = (Inr r, self', w')"
  shows "(host_entity r = None \<or> ''alerts'' \<notin> set (nb_options self') \<longrightarrow>
            related_alerts r = None \<and> alert_timeline r = None)
       \<and> (host_entity r \<noteq> None \<and> ''alerts'' \<in> set (nb_options self') \<longrightarrow>
            (\<exists>v ts hn w1 df w2 r2 w3.
               arg_value args = Some v \<and> arg_timespan args = Some ts
             \<and> (hn = v \<or> host_name (verify_host_name env v ts) = Some hn)
             \<and> trace_extends w w1 \<and> alerts_cache w1 = alerts_cache w
             \<and> get_related_alerts env ts hn w1 = (df, w2)
             \<and> fetch_bookmarks env self' ts hn r2 w3 = (r, w')
             \<and> related_alerts r = Some df
             \<and> (df_len df = 0 \<longrightarrow> alert_timeline r = None \<and> w3 = w2)
             \<and> (df_len df = 1 \<longrightarrow>
                  alert_timeline r = None
                  \<and> w3 = emit (NbMarkdown
                                ''A single alert cannot be plotted on a timeline.'' None)
                           (emit (SetText ''show_alert_timeline'') w2))
             \<and> (df_len df > 1 \<longrightarrow>
                  alert_timeline r =
                    display_timeline env df ''Related Alerts''
                      [''AlertName'', ''TimeGenerated''] 200
                  \<and> w3 = emit (DisplayTimeline df ''Related Alerts''
                                [''AlertName'', ''TimeGenerated''] 200)
                           (emit (SetText ''show_alert_timeline'') w2))
             \<and> (alert_timeline r \<noteq> None \<longrightarrow> df_len df > 1)))"
    (is "(?none \<longrightarrow> ?unset) \<and> (?some \<longrightarrow> ?fetched)")
proof -
  from run_alerts_block[OF run] obtain v ts where v: "arg_value args = Some v"
    and ts: "arg_timespan args = Some ts"
    and cases: "(host_entity r = None \<and> related_alerts r = None \<and> alert_timeline r = None)
          \<or> (host_entity r \<noteq> None
             \<and> (\<exists>hn w1 r1 r2 w3.
                  (hn = v \<or> host_name (verify_host_name env v ts) = Some hn)
                \<and> trace_extends w w1 \<and> alerts_cache w1 = alerts_cache w
                \<and> related_alerts r1 = None \<and> alert_timeline r1 = None
                \<and> fetch_alerts env self' ts hn r1 w1 = (r2, w3)
                \<and> fetch_bookmarks env self' ts hn r2 w3 = (r, w')))"
    by blast
  from cases show ?thesis
  proof
    assume "host_entity r = None \<and> related_alerts r = None \<and> alert_timeline r = None"
    then show ?thesis by simp
  next
    assume "host_entity r \<noteq> None
             \<and> (\<exists>hn w1 r1 r2 w3.
                  (hn = v \<or> host_name (verify_host_name env v ts) = Some hn)
                \<and> trace_extends w w1 \<and> alerts_cache w1 = alerts_cache w
                \<and> related_alerts r1 = None \<and> alert_timeline r1 = None
                \<and> fetch_alerts env self' ts hn r1 w1 = (r2, w3)
                \<and> fetch_bookmarks env self' ts hn r2 w3 = (r, w'))"
    then obtain hn w1 r1 r2 w3 where ent: "host_entity r \<noteq> None"
      and hn: "hn = v \<or> host_name (verify_host_name env v ts) = Some hn"
      and w1: "trace_extends w w1" "alerts_cache w1 = alerts_cache w"
      and r1: "related_alerts r1 = None" "alert_timeline r1 = None"
      and fa: "fetch_alerts env self' ts hn r1 w1 = (r2, w3)"
      and fb: "fetch_bookmarks env self' ts hn r2 w3 = (r, w')"
      by blast
    from fetch_bookmarks_fields(1,2)[of env self' ts hn r2 w3] fb
    have keep: "related_alerts r = related_alerts r2" "alert_timeline r = alert_timeline r2"
      by simp_all
    show ?thesis
    proof (cases "''alerts'' \<in> set (nb_options self')")
      case False
      with fetch_alerts_not_requested[of self' env ts hn r1 w1] fa have "r2 = r1" by simp
      with keep r1 False ent show ?thesis by simp
    next
      case True
      obtain df w2 where g: "get_related_alerts env ts hn w1 = (df, w2)"
        by (cases "get_related_alerts env ts hn w1")
      note block = fetch_alerts_requested[OF True g, of r1]
      have a: "related_alerts r = Some df"
        using block fa keep by (auto split: if_splits)
      have b0: "df_len df = 0 \<longrightarrow> alert_timeline r = None \<and> w3 = w2"
        using block fa keep r1 by auto
      have b1: "df_len df = 1 \<longrightarrow>
                  alert_timeline r = None
                  \<and> w3 = emit (NbMarkdown
                                ''A single alert cannot be plotted on a timeline.'' None)
                           (emit (SetText ''show_alert_timeline'') w2)"
        using block fa keep by auto
      have b2: "df_len df > 1 \<longrightarrow>
                  alert_timeline r =
                    display_timeline env df ''Related Alerts''
                      [''AlertName'', ''TimeGenerated''] 200
                  \<and> w3 = emit (DisplayTimeline df ''Related Alerts''
                                [''AlertName'', ''TimeGenerated''] 200)
                           (emit (SetText ''show_alert_timeline'') w2)"
        using block fa keep by auto
      have b3: "alert_timeline r \<noteq> None \<longrightarrow> df_len df > 1"
        using b0 b1 by (cases "df_len df = 0"; cases "df_len df = 1") auto
      have ex: ?fetched
        using v ts hn w1 g fb a b0 b1 b2 b3 by - (intro exI conjI, assumption+)
      show ?thesis
      proof (rule conjI)
        from ent True show "?none \<longrightarrow> ?unset" by auto
      next
        from ex show "?some \<longrightarrow> ?fetched" by (rule impI)
      qed
    qed
  qed
qed

lemma quiet_run:
  "fst (HostSummary_run example_env (example_args (Some ''quiet'') (Some example_timespan))
      (example_nb ''Host summary'') empty_world) =
   Inr \<lparr>description = Some ''Host summary'', timespan = Some example_timespan,
        host_entity = Some (example_host ''quiet''), related_alerts = Some no_alerts,
        alert_timeline = None, related_bookmarks = Some no_bookmarks\<rparr>"
  by (simp add: example_defs run_defs)

lemma quiet_trace:
  "SetText ''show_alert_timeline''
     \<notin> set (trace (snd (snd (HostSummary_run example_env
          (example_args (Some ''quiet'') (Some example_timespan))
          (example_nb ''Host summary'') empty_world))))"
  by (simp add: example_defs run_defs)

theorem C10_alert_timeline_needs_two_alerts_witness:
  "fst (HostSummary_run example_env (example_args (Some ''quiet'') (Some example_timespan))
      (example_nb ''Host summary'') empty_world) =
   Inr \<lparr>description = Some ''Host summary'', timespan = Some example_timespan,
        host_entity = Some (example_host ''quiet''), related_alerts = Some no_alerts,
        alert_timeline = None, related_bookmarks = Some no_bookmarks\<rparr>
   \<and> SetText ''show_alert_timeline''
       \<notin> set (trace (snd (snd (HostSummary_run example_env
            (example_args (Some ''quiet'') (Some example_timespan))
            (example_nb ''Host summary'') empty_world))))
   \<and> fst (HostSummary_run example_env (example_args (Some ''ghost'') (Some example_timespan))
      (example_nb ''Host summary'') empty_world) =
     Inr \<lparr>description = Some ''Host summary'', timespan = Some example_timespan,
          host_entity = Some (example_host ''ghost''), related_alerts = Some one_alert,
          alert_timeline = None, related_bookmarks = Some no_bookmarks\<rparr>
   \<and> fst (HostSummary_run example_env (example_args (Some ''vm1'') (Some example_timespan))
        (example_nb ''Host summary'') empty_world) =
     Inr \<lparr>description = Some ''Host summary'', timespan = Some example_timespan,
          host_entity = Some (example_host ''vm1''), related_alerts = Some two_alerts,
          alert_timeline = Some (Figure 1), related_bookmarks = Some no_bookmarks\<rparr>
   \<and> df_len no_alerts = 0 \<and> df_len one_alert = 1 \<and> df_len two_alerts = 2"
proof -
  have collapse: "\<And>R :: (error + HostSummaryResult) \<times> notebooklet \<times> world.
      \<And>r. fst R = Inr r \<Longrightarrow> R = (Inr r, fst (snd R), snd (snd R))"
    by (simp add: prod_eq_iff)
  have lens: "df_len no_alerts = 0" "df_len one_alert = 1" "df_len two_alerts = 2"
    by (simp_all add: df_len_def no_alerts_def one_alert_def two_alerts_def)
  note t0 = C10_alert_timeline_needs_two_alerts[OF collapse[OF quiet_run]]
  note t1 = C10_alert_timeline_needs_two_alerts[OF collapse[OF ghost_run]]
  note t2 = C10_alert_timeline_needs_two_alerts[OF collapse[OF vm1_run]]
  from t0 t1 t2 quiet_run quiet_trace ghost_run vm1_run lens show ?thesis by blast
qed

section \<open>Facts about options, discovery and matching\<close>

subsection \<open>Unknown option names\<close>

text \<open>
  Claim C9. For an option name that is not a known option, \<open>get_opt\<close> and \<open>set_opt\<close>
  both fail with \<open>KeyError\<close> of that name, and \<open>set_opt\<close> leaves the configuration as it
  was.
\<close>

theorem C9_unknown_option_key_error:
  assumes "\<not> known_option name"
  shows "get_opt cfg name = Inl (KeyError name)
       \<and> set_opt cfg name v = (Inl (KeyError name), cfg)"
  using assms by (simp add: get_opt_def set_opt_def)

theorem C9_unknown_option_key_error_witness:
  "\<not> known_option ''no_option''
   \<and> get_opt [(''verbose'', OBool True)] ''no_option'' = Inl (KeyError ''no_option'')
   \<and> set_opt [(''verbose'', OBool True)] ''no_option'' (OStr ''value'')
       = (Inl (KeyError ''no_option''), [(''verbose'', OBool True)])"
proof -
  have unknown: "\<not> known_option ''no_option''"
    by (simp add: known_option_def option_defs_def)
  from C9_unknown_option_key_error[OF unknown] unknown show ?thesis by simp
qed

subsection \<open>The registry after a scan\<close>

lemma set_update_subset: "set (AList.update k v al) \<subseteq> insert (k, v) (set al)"
  by (induction al) auto

lemma set_foldl_update:
  "set (foldl (\<lambda>acc pc. AList.update (f pc) (g pc) acc) acc0 xs)
     \<subseteq> set acc0 \<union> (\<lambda>pc. (f pc, g pc)) ` set xs"
proof (induction xs arbitrary: acc0)
  case Nil
  show ?case by simp
next
  case (Cons x xs)
  have "set (foldl (\<lambda>acc pc. AList.update (f pc) (g pc) acc) (AList.update (f x) (g x) acc0) xs)
          \<subseteq> set (AList.update (f x) (g x) acc0) \<union> (\<lambda>pc. (f pc, g pc)) ` set xs"
    by (rule Cons.IH)
  also have "\<dots> \<subseteq> insert (f x, g x) (set acc0) \<union> (\<lambda>pc. (f pc, g pc)) ` set xs"
    using set_update_subset[of "f x" "g x" acc0] by blast
  finally show ?case by auto
qed

lemma scan_kept:
  "(p, c) \<in> set (scan path node) \<Longrightarrow> is_notebooklet_class (dotted p) c"
proof (induction path node rule: scan.induct)
  case (1 path n e)
  then show ?case by simp
next
  case (2 path n classes)
  then show ?case by auto
next
  case (3 path n children)
  then show ?case by auto
qed

lemma d_class_descriptor_of [simp]: "d_class (descriptor_of c) = c"
  by (simp add: descriptor_of_def)

text \<open>
  Claim C4. Every (name, class) pair of the registry that \<open>discover_modules\<close> builds
  from a scan holds a class that is a direct or transitive subclass of the base
  \<open>Notebooklet\<close> type and is not that base class; the name is the name of the class.
\<close>

theorem C4_registry_holds_strict_subclasses:
  assumes "(name, c) \<in> set (iter_classes (discover_modules root))"
  shows "issubclass c Notebooklet \<and> c \<noteq> Notebooklet \<and> name = cls_name c"
proof -
  from assms obtain d where d: "(name, d) \<in> set (reg_classes (discover_modules root))"
    and c: "c = d_class d"
    by (auto simp: iter_classes_def)
  have "set (reg_classes (discover_modules root))
          \<subseteq> (\<lambda>pc. (cls_name (snd pc), descriptor_of (snd pc))) ` set (scan [] root)"
    using set_foldl_update[of "\<lambda>pc. cls_name (snd pc)" "\<lambda>pc. descriptor_of (snd pc)" "[]"
        "scan [] root"]
    by (simp add: discover_modules_def Let_def)
  with d obtain p c' where pc: "(p, c') \<in> set (scan [] root)"
    and n: "name = cls_name c'" and d': "d = descriptor_of c'"
    by auto
  from scan_kept[OF pc] have "issubclass c' Notebooklet \<and> c' \<noteq> Notebooklet"
    by (simp add: is_notebooklet_class_def)
  with c d' n show ?thesis by simp
qed

lemmas class_defs =
  HostSummary_def AccountSummary_def WinHostSummary_def HostSummaryResult_class_def
  Notebooklet_def

lemmas discovery_defs =
  example_registry_def example_tree_def discover_modules_def is_notebooklet_class_def
  dotted_def descriptor_of_def iter_classes_def Let_def

lemma example_classes:
  "iter_classes example_registry =
     [(''WinHostSummary'', WinHostSummary), (''HostSummary'', HostSummary),
      (''AccountSummary'', AccountSummary)]"
  by (simp add: discovery_defs class_defs)

theorem C4_registry_holds_strict_subclasses_witness:
  "(''WinHostSummary'', WinHostSummary) \<in> set (iter_classes example_registry)
   \<and> issubclass WinHostSummary Notebooklet \<and> WinHostSummary \<noteq> Notebooklet
   \<and> (''Notebooklet'', Notebooklet) \<notin> set (iter_classes example_registry)"
proof -
  have mem: "(''WinHostSummary'', WinHostSummary) \<in> set (iter_classes example_registry)"
    by (simp add: example_classes)
  have "(''Notebooklet'', Notebooklet) \<notin> set (iter_classes example_registry)"
    by (simp add: example_classes class_defs)
  with C4_registry_holds_strict_subclasses[OF mem[unfolded example_registry_def]] mem
  show ?thesis by simp
qed

subsection \<open>Matching the terms of a descriptor\<close>



end
